theory Spec2Isabelle
  imports Complex_Main "HOL-Library.Char_ord" "HOL-Library.List_Lexorder"
begin

section \<open>TikTok popularity pipeline: the feature-consistency core of analysis\_tiktok.py\<close>

text \<open>
  The development embeds \<^verbatim>\<open>preprocess_data\<close>, \<^verbatim>\<open>predict_content\<close>,
  \<^verbatim>\<open>predict_bulk\<close> and the gate of the prediction section of \<^verbatim>\<open>main\<close>.
  Conventions:
  \<^item> a Python \<^verbatim>\<open>str\<close> is a \<^typ>\<open>string\<close>; characters are 8-bit, so the model speaks
    about ASCII text (\<^verbatim>\<open>len\<close> is \<^const>\<open>length\<close>, string comparison is the
    lexicographic order of the character codes);
  \<^item> a missing value (\<^verbatim>\<open>NaN\<close>, \<^verbatim>\<open>None\<close>) in a column is \<^const>\<open>None\<close>;
  \<^item> an exception is a value \<^term>\<open>Inl e\<close> of a sum type, a normal return is \<^term>\<open>Inr v\<close>;
  \<^item> floating-point numbers are idealised as reals; \<^verbatim>\<open>NaN\<close> among the features is
    \<^const>\<open>None\<close>.
  The library calls the program makes (scikit-learn's \<^verbatim>\<open>LabelEncoder\<close> and
  \<^verbatim>\<open>TfidfVectorizer\<close>, \<^verbatim>\<open>re.findall\<close>, the input validation of
  \<^verbatim>\<open>RandomForestClassifier.predict\<close>) are modelled by what the libraries document; the
  date parser of \<^verbatim>\<open>pd.to_datetime\<close> and the decision function of the trained forest
  are parameters.
\<close>

subsection \<open>Exceptions\<close>

datatype error =
    ValueError
  | IndexError
  | AttributeError
  | Model_belum_dilatih

text \<open>
  The first three are Python's exceptions. \<^const>\<open>Model_belum_dilatih\<close> is the early return
  of the prediction section of \<^verbatim>\<open>main\<close> behind the warning ``Model belum dilatih''
  (the model has not been trained).
\<close>

subsection \<open>sklearn.preprocessing.LabelEncoder\<close>

text \<open>
  \<^verbatim>\<open>fit\<close> stores \<^verbatim>\<open>classes_ = np.unique(y)\<close>: the distinct values in ascending
  order. \<^verbatim>\<open>transform\<close> maps a value to its position in \<^verbatim>\<open>classes_\<close> and raises
  \<^verbatim>\<open>ValueError\<close> (``y contains previously unseen labels'') when one value is not there.
\<close>

record LabelEncoder =
  classes :: "string list"

definition LabelEncoder_fit :: "string list \<Rightarrow> LabelEncoder" where
  "LabelEncoder_fit y = \<lparr>classes = sort (remdups y)\<rparr>"

fun index_of :: "'a list \<Rightarrow> 'a \<Rightarrow> nat" where
  "index_of [] y = 0"
| "index_of (x # xs) y = (if x = y then 0 else Suc (index_of xs y))"

definition LabelEncoder_transform :: "LabelEncoder \<Rightarrow> string list \<Rightarrow> error + int list" where
  "LabelEncoder_transform le y =
     (if list_all (\<lambda>v. v \<in> set (classes le)) y
      then Inr (map (\<lambda>v. int (index_of (classes le) v)) y)
      else Inl ValueError)"

definition LabelEncoder_fit_transform :: "string list \<Rightarrow> LabelEncoder \<times> (error + int list)" where
  "LabelEncoder_fit_transform y =
     (let le = LabelEncoder_fit y in (le, LabelEncoder_transform le y))"

text \<open>Python's \<^verbatim>\<open>xs[0]\<close>: \<^verbatim>\<open>IndexError\<close> on an empty sequence.\<close>

definition item0 :: "'a list \<Rightarrow> error + 'a" where
  "item0 xs = (case xs of [] \<Rightarrow> Inl IndexError | x # _ \<Rightarrow> Inr x)"

text \<open>
  The guarded call of \<^verbatim>\<open>predict_content\<close> (lines 115--116) and of the two lambdas of
  \<^verbatim>\<open>predict_bulk\<close> (lines 137--144):
  \<^verbatim>\<open>le.transform([s])[0] if s in le.classes_ else -1\<close>.
\<close>

definition encode_or_unseen :: "LabelEncoder \<Rightarrow> string \<Rightarrow> error + int" where
  "encode_or_unseen le s =
     (if s \<in> set (classes le)
      then (case LabelEncoder_transform le [s] of
              Inl e \<Rightarrow> Inl e
            | Inr codes \<Rightarrow> item0 codes)
      else Inr (- 1))"

text \<open>\<^verbatim>\<open>Series.apply(f)\<close>: \<^verbatim>\<open>f\<close> on each cell in order; the first exception aborts.\<close>

fun apply_series :: "('a \<Rightarrow> error + 'b) \<Rightarrow> 'a list \<Rightarrow> error + 'b list" where
  "apply_series f [] = Inr []"
| "apply_series f (x # xs) =
     (case f x of
        Inl e \<Rightarrow> Inl e
      | Inr v \<Rightarrow> (case apply_series f xs of Inl e \<Rightarrow> Inl e | Inr vs \<Rightarrow> Inr (v # vs)))"

text \<open>\<^verbatim>\<open>str(x)\<close> of a cell of a text column: a missing cell is the float \<^verbatim>\<open>nan\<close>.\<close>

definition py_str :: "string option \<Rightarrow> string" where
  "py_str x = (case x of None \<Rightarrow> ''nan'' | Some s \<Rightarrow> s)"

subsection \<open>Hashtag extraction: \<^verbatim>\<open>' '.join(re.findall(r"#\w+", str(x)))\<close>\<close>

text \<open>\<^verbatim>\<open>\w\<close> on ASCII text: a letter, a digit or the underscore.\<close>

definition is_word_char :: "char \<Rightarrow> bool" where
  "is_word_char c =
     (let n = (of_char c :: nat)
      in (48 \<le> n \<and> n \<le> 57) \<or> (65 \<le> n \<and> n \<le> 90) \<or> n = 95 \<or> (97 \<le> n \<and> n \<le> 122))"

text \<open>
  \<^verbatim>\<open>re.findall\<close> scans from the left. Where the pattern matches, the greedy match is
  collected and the scan goes on behind it; elsewhere it moves on by one character.
\<close>

function re_findall_hashtag :: "string \<Rightarrow> string list" where
  "re_findall_hashtag [] = []"
| "re_findall_hashtag (c # cs) =
     (if c = CHR ''#'' \<and> takeWhile is_word_char cs \<noteq> []
      then (c # takeWhile is_word_char cs) # re_findall_hashtag (dropWhile is_word_char cs)
      else re_findall_hashtag cs)"
  by pat_completeness auto
termination
  by (relation "measure length") (auto simp: length_dropWhile_le less_Suc_eq_le)

fun py_join :: "string \<Rightarrow> string list \<Rightarrow> string" where
  "py_join sep [] = []"
| "py_join sep [x] = x"
| "py_join sep (x # y # ys) = x @ sep @ py_join sep (y # ys)"

definition hashtags_str :: "string \<Rightarrow> string" where
  "hashtags_str x = py_join '' '' (re_findall_hashtag x)"





subsection \<open>sklearn.feature\_extraction.text.TfidfVectorizer\<close>

text \<open>
  With the defaults the program uses, a document is lower-cased and cut into the tokens
  of the pattern \<^verbatim>\<open>(?u)\b\w\w+\b\<close>: the maximal runs of word characters that are at
  least two characters long.
\<close>

definition lower_char :: "char \<Rightarrow> char" where
  "lower_char c =
     (case map_of (zip ''ABCDEFGHIJKLMNOPQRSTUVWXYZ'' ''abcdefghijklmnopqrstuvwxyz'') c of
        Some l \<Rightarrow> l
      | None \<Rightarrow> c)"

function tokenize :: "string \<Rightarrow> string list" where
  "tokenize [] = []"
| "tokenize (c # cs) =
     (if is_word_char c
      then (if 2 \<le> length (c # takeWhile is_word_char cs)
            then [c # takeWhile is_word_char cs] else [])
           @ tokenize (dropWhile is_word_char cs)
      else tokenize cs)"
  by pat_completeness auto
termination
  by (relation "measure length") (auto simp: length_dropWhile_le less_Suc_eq_le)

definition analyze :: "string \<Rightarrow> string list" where
  "analyze doc = tokenize (map lower_char doc)"

text \<open>
  The fitted state: the terms in column order (\<^verbatim>\<open>vocabulary_\<close>, alphabetical) and their
  weights (\<^verbatim>\<open>idf_\<close>).
\<close>

record TfidfVectorizer =
  vocabulary :: "string list"
  idf :: "real list"

definition term_frequency :: "string list list \<Rightarrow> string \<Rightarrow> nat" where
  "term_frequency docs t = sum_list (map (\<lambda>d. count_list d t) docs)"

definition document_frequency :: "string list list \<Rightarrow> string \<Rightarrow> nat" where
  "document_frequency docs t = length (filter (\<lambda>d. t \<in> set d) docs)"

text \<open>
  \<^verbatim>\<open>max_features\<close>: when there are more terms than that, only the most frequent ones of
  the corpus are kept, in alphabetical order again. Among terms of equal frequency
  numpy's \<^verbatim>\<open>argsort\<close> decides; the model keeps the alphabetically first ones.
\<close>

definition limit_features :: "nat \<Rightarrow> string list list \<Rightarrow> string list \<Rightarrow> string list" where
  "limit_features max_features docs terms =
     (if length terms \<le> max_features then terms
      else sort (take max_features (sort_key (\<lambda>t. - int (term_frequency docs t)) terms)))"

text \<open>
  \<^verbatim>\<open>fit\<close> raises \<^verbatim>\<open>ValueError\<close> (``empty vocabulary'') when the corpus has no token.
  The weight of a term is \<^verbatim>\<open>ln((1 + n) / (1 + df)) + 1\<close>.
\<close>

definition TfidfVectorizer_fit :: "nat \<Rightarrow> string list \<Rightarrow> error + TfidfVectorizer" where
  "TfidfVectorizer_fit max_features raw_documents =
     (let docs = map analyze raw_documents;
          terms = sort (remdups (concat docs))
      in if terms = [] then Inl ValueError
         else let vocab = limit_features max_features docs terms
              in Inr \<lparr>vocabulary = vocab,
                      idf = map (\<lambda>t. ln ((1 + real (length docs))
                                        / (1 + real (document_frequency docs t))) + 1) vocab\<rparr>)"

text \<open>
  \<^verbatim>\<open>transform\<close> of one document: the counts of the vocabulary's terms, weighted, the row
  scaled to Euclidean length 1 (a zero row stays zero).
\<close>

definition l2_normalize :: "real list \<Rightarrow> real list" where
  "l2_normalize w =
     (let n = sqrt (sum_list (map (\<lambda>x. x * x) w))
      in if n = 0 then w else map (\<lambda>x. x / n) w)"

definition TfidfVectorizer_transform :: "TfidfVectorizer \<Rightarrow> string \<Rightarrow> real list" where
  "TfidfVectorizer_transform v doc =
     l2_normalize (map2 (\<lambda>t w. real (count_list (analyze doc) t) * w) (vocabulary v) (idf v))"

subsection \<open>Feature matrices and the classifier\<close>

type_synonym feature = "real option"

definition num :: "int \<Rightarrow> feature" where
  "num i = Some (real_of_int i)"

definition num_na :: "int option \<Rightarrow> feature" where
  "num_na x = map_option real_of_int x"

text \<open>\<^verbatim>\<open>scipy.sparse.hstack\<close> of two blocks: the rows side by side.\<close>

definition hstack :: "feature list list \<Rightarrow> feature list list \<Rightarrow> error + feature list list" where
  "hstack A B = (if length A = length B then Inr (map2 (@) A B) else Inl ValueError)"

text \<open>
  The trained forest: its decision function is a parameter. \<^verbatim>\<open>predict\<close> validates its
  input first and raises \<^verbatim>\<open>ValueError\<close> on an empty matrix, on a \<^verbatim>\<open>NaN\<close> (the matrix
  is sparse) and on a width other than the one it was fitted on.
\<close>

record RandomForestClassifier =
  n_features_in :: nat
  decide :: "real list \<Rightarrow> int"

definition RandomForest_predict ::
  "RandomForestClassifier \<Rightarrow> feature list list \<Rightarrow> error + int list" where
  "RandomForest_predict m X =
     (if X = [] then Inl ValueError
      else if list_ex (\<lambda>row. None \<in> set row) X then Inl ValueError
      else if list_ex (\<lambda>row. length row \<noteq> n_features_in m) X then Inl ValueError
      else Inr (map (\<lambda>row. decide m (map the row)) X))"

subsection \<open>Timestamps\<close>

record time =
  hour :: nat
  minute :: nat
  second :: nat

record datetime = time +
  dayofweek :: nat

text \<open>
  A cell of the column \<^verbatim>\<open>createTimeISO\<close>: a string as read from the file, a date-time,
  or missing. The parser of \<^verbatim>\<open>pd.to_datetime\<close> is the parameter \<open>parse\<close>, with
  \<^const>\<open>None\<close> for a string it cannot read. With the default \<^verbatim>\<open>errors='raise'\<close>
  such a string raises; with \<^verbatim>\<open>errors='coerce'\<close> it becomes \<^verbatim>\<open>NaT\<close>. The parser is
  taken cell by cell. Of a date-time only the four fields the program reads are kept.
\<close>

datatype time_cell = Text string | Stamp datetime | NaT

definition to_datetime_cell :: "(string \<Rightarrow> datetime option) \<Rightarrow> time_cell \<Rightarrow> error + datetime option" where
  "to_datetime_cell parse c =
     (case c of
        Text s \<Rightarrow> (case parse s of None \<Rightarrow> Inl ValueError | Some d \<Rightarrow> Inr (Some d))
      | Stamp d \<Rightarrow> Inr (Some d)
      | NaT \<Rightarrow> Inr None)"

definition to_datetime :: "(string \<Rightarrow> datetime option) \<Rightarrow> time_cell list \<Rightarrow> error + datetime option list" where
  "to_datetime parse col = apply_series (to_datetime_cell parse) col"

definition to_datetime_coerce :: "(string \<Rightarrow> datetime option) \<Rightarrow> time_cell list \<Rightarrow> datetime option list" where
  "to_datetime_coerce parse col =
     map (\<lambda>c. case c of Text s \<Rightarrow> parse s | Stamp d \<Rightarrow> Some d | NaT \<Rightarrow> None) col"

definition stamp_cell :: "datetime option \<Rightarrow> time_cell" where
  "stamp_cell t = (case t of None \<Rightarrow> NaT | Some d \<Rightarrow> Stamp d)"

text \<open>The accessors \<^verbatim>\<open>.dt.hour\<close> and so on: \<^verbatim>\<open>NaN\<close> on \<^verbatim>\<open>NaT\<close>.\<close>

definition dt_hour :: "datetime option list \<Rightarrow> int option list" where
  "dt_hour col = map (map_option (\<lambda>d. int (hour d))) col"

definition dt_minute :: "datetime option list \<Rightarrow> int option list" where
  "dt_minute col = map (map_option (\<lambda>d. int (minute d))) col"

definition dt_second :: "datetime option list \<Rightarrow> int option list" where
  "dt_second col = map (map_option (\<lambda>d. int (second d))) col"

definition dt_dayofweek :: "datetime option list \<Rightarrow> nat option list" where
  "dt_dayofweek col = map (map_option dayofweek) col"

definition days_mapping :: "(nat \<times> string) list" where
  "days_mapping = [(0, ''Senin''), (1, ''Selasa''), (2, ''Rabu''), (3, ''Kamis''),
                   (4, ''Jumat''), (5, ''Sabtu''), (6, ''Minggu'')]"

text \<open>\<^verbatim>\<open>Series.map(dict)\<close>: a value that is no key, and a missing value, become \<^verbatim>\<open>NaN\<close>.\<close>

definition map_dict :: "('a \<times> 'b) list \<Rightarrow> 'a option list \<Rightarrow> 'b option list" where
  "map_dict d col = map (\<lambda>x. case x of None \<Rightarrow> None | Some k \<Rightarrow> map_of d k) col"

subsection \<open>The data frame\<close>

text \<open>
  A \<^verbatim>\<open>DataFrame\<close> with the columns the program reads and writes, column by column.
  The columns of the input file are always there; a column the program adds is
  \<^const>\<open>None\<close> until it is assigned. All columns of a frame have the same length.
\<close>

record DataFrame =
  c_text :: "string option list"
  c_authorMeta_name :: "string option list"
  c_musicMeta_musicName :: "string option list"
  c_videoMeta_duration :: "int option list"
  c_createTimeISO :: "time_cell list"
  c_diggCount :: "int option list"
  c_shareCount :: "int option list"
  c_commentCount :: "int option list"
  c_playCount :: "int option list"
  c_authorMeta_name_encoded :: "int list option"
  c_musicMeta_musicName_encoded :: "int list option"
  c_text_length :: "int list option"
  c_hashtags_str :: "string list option"
  c_hour :: "int option list option"
  c_minute :: "int option list option"
  c_second :: "int option list option"
  c_day :: "string option list option"
  c_total_interactions :: "int option list option"
  c_is_popular :: "int list option"
  c_status_popularitas :: "string option list option"

definition nrows :: "DataFrame \<Rightarrow> nat" where
  "nrows df = length (c_text df)"

definition wf_frame :: "DataFrame \<Rightarrow> bool" where
  "wf_frame df =
     (length (c_authorMeta_name df) = nrows df \<and> length (c_musicMeta_musicName df) = nrows df
      \<and> length (c_videoMeta_duration df) = nrows df \<and> length (c_createTimeISO df) = nrows df
      \<and> length (c_diggCount df) = nrows df \<and> length (c_shareCount df) = nrows df
      \<and> length (c_commentCount df) = nrows df \<and> length (c_playCount df) = nrows df)"

text \<open>
  \<^verbatim>\<open>df.dropna(inplace=True)\<close>: only the rows without a missing cell stay. The file may
  have further columns, which the program never reads; they are not part of the model.
\<close>

definition isna_opt :: "'a option list option \<Rightarrow> nat \<Rightarrow> bool" where
  "isna_opt col i = (case col of None \<Rightarrow> False | Some xs \<Rightarrow> xs ! i = None)"

definition notna_row :: "DataFrame \<Rightarrow> nat \<Rightarrow> bool" where
  "notna_row df i =
     (c_text df ! i \<noteq> None \<and> c_authorMeta_name df ! i \<noteq> None
      \<and> c_musicMeta_musicName df ! i \<noteq> None \<and> c_videoMeta_duration df ! i \<noteq> None
      \<and> c_createTimeISO df ! i \<noteq> NaT
      \<and> c_diggCount df ! i \<noteq> None \<and> c_shareCount df ! i \<noteq> None
      \<and> c_commentCount df ! i \<noteq> None \<and> c_playCount df ! i \<noteq> None
      \<and> \<not> isna_opt (c_hour df) i \<and> \<not> isna_opt (c_minute df) i \<and> \<not> isna_opt (c_second df) i
      \<and> \<not> isna_opt (c_day df) i \<and> \<not> isna_opt (c_total_interactions df) i
      \<and> \<not> isna_opt (c_status_popularitas df) i)"

definition take_rows :: "nat list \<Rightarrow> 'a list \<Rightarrow> 'a list" where
  "take_rows keep col = map (\<lambda>i. col ! i) keep"

definition dropna :: "DataFrame \<Rightarrow> DataFrame" where
  "dropna df =
     (let keep = filter (notna_row df) [0..<nrows df]
      in \<lparr>c_text = take_rows keep (c_text df),
          c_authorMeta_name = take_rows keep (c_authorMeta_name df),
          c_musicMeta_musicName = take_rows keep (c_musicMeta_musicName df),
          c_videoMeta_duration = take_rows keep (c_videoMeta_duration df),
          c_createTimeISO = take_rows keep (c_createTimeISO df),
          c_diggCount = take_rows keep (c_diggCount df),
          c_shareCount = take_rows keep (c_shareCount df),
          c_commentCount = take_rows keep (c_commentCount df),
          c_playCount = take_rows keep (c_playCount df),
          c_authorMeta_name_encoded = map_option (take_rows keep) (c_authorMeta_name_encoded df),
          c_musicMeta_musicName_encoded = map_option (take_rows keep) (c_musicMeta_musicName_encoded df),
          c_text_length = map_option (take_rows keep) (c_text_length df),
          c_hashtags_str = map_option (take_rows keep) (c_hashtags_str df),
          c_hour = map_option (take_rows keep) (c_hour df),
          c_minute = map_option (take_rows keep) (c_minute df),
          c_second = map_option (take_rows keep) (c_second df),
          c_day = map_option (take_rows keep) (c_day df),
          c_total_interactions = map_option (take_rows keep) (c_total_interactions df),
          c_is_popular = map_option (take_rows keep) (c_is_popular df),
          c_status_popularitas = map_option (take_rows keep) (c_status_popularitas df)\<rparr>)"

text \<open>The cells of a column that are not missing (all of them, after \<^const>\<open>dropna\<close>).\<close>

definition present :: "'a option list \<Rightarrow> 'a list" where
  "present col = concat (map (\<lambda>x. case x of None \<Rightarrow> [] | Some v \<Rightarrow> [v]) col)"

subsection \<open>The label: lines 56--57\<close>

text \<open>Column arithmetic: \<^verbatim>\<open>NaN\<close> in, \<^verbatim>\<open>NaN\<close> out; a comparison with \<^verbatim>\<open>NaN\<close> is false.\<close>

definition add_na :: "int option \<Rightarrow> int option \<Rightarrow> int option" where
  "add_na a b = (case a of None \<Rightarrow> None | Some x \<Rightarrow> (case b of None \<Rightarrow> None | Some y \<Rightarrow> Some (x + y)))"

definition total_interactions :: "DataFrame \<Rightarrow> int option list" where
  "total_interactions df =
     map2 add_na (map2 add_na (map2 add_na (c_diggCount df) (c_shareCount df)) (c_commentCount df))
       (c_playCount df)"

definition is_popular_cell :: "int option \<Rightarrow> int" where
  "is_popular_cell t = (case t of None \<Rightarrow> 0 | Some v \<Rightarrow> if v > 10000 then 1 else 0)"

definition is_popular :: "int option list \<Rightarrow> int list" where
  "is_popular tot = map is_popular_cell tot"

subsection \<open>\<^verbatim>\<open>preprocess_data\<close>\<close>

text \<open>
  \<^verbatim>\<open>np.array(df[[c1, ..., c7]])\<close>: the seven columns side by side, one row per record.
\<close>

definition np_array :: "feature list list \<Rightarrow> feature list list" where
  "np_array cols = transpose cols"

definition tfidf_rows :: "TfidfVectorizer \<Rightarrow> string list \<Rightarrow> feature list list" where
  "tfidf_rows v docs = map (\<lambda>d. map Some (TfidfVectorizer_transform v d)) docs"

text \<open>
  The function returns \<^verbatim>\<open>df, features, df['is_popular'], tfidf, le_name, le_music\<close>.
  It raises where the vectorizer finds no token at all (line 45) and where a timestamp
  cannot be parsed (line 47, \<^verbatim>\<open>pd.to_datetime\<close> with its default \<^verbatim>\<open>errors='raise'\<close>).
\<close>

definition preprocess_data ::
  "(string \<Rightarrow> datetime option) \<Rightarrow> DataFrame \<Rightarrow>
   error + (DataFrame \<times> feature list list \<times> int list \<times> TfidfVectorizer \<times> LabelEncoder \<times> LabelEncoder)" where
  "preprocess_data parse df0 =
     (let df = dropna df0;
          (le_name, name_encoded) = LabelEncoder_fit_transform (present (c_authorMeta_name df))
      in case name_encoded of Inl e \<Rightarrow> Inl e | Inr name_codes \<Rightarrow>
     (let df = df\<lparr>c_authorMeta_name_encoded := Some name_codes\<rparr>;
          (le_music, music_encoded) = LabelEncoder_fit_transform (present (c_musicMeta_musicName df))
      in case music_encoded of Inl e \<Rightarrow> Inl e | Inr music_codes \<Rightarrow>
     (let df = df\<lparr>c_musicMeta_musicName_encoded := Some music_codes\<rparr>;
          text_length = map (\<lambda>x. int (length x)) (present (c_text df));
          df = df\<lparr>c_text_length := Some text_length\<rparr>;
          hashtags = map hashtags_str (present (c_text df));
          df = df\<lparr>c_hashtags_str := Some hashtags\<rparr>
      in case TfidfVectorizer_fit 100 hashtags of Inl e \<Rightarrow> Inl e | Inr tfidf \<Rightarrow>
     (let hashtag_tfidf = tfidf_rows tfidf hashtags
      in case to_datetime parse (c_createTimeISO df) of Inl e \<Rightarrow> Inl e | Inr t \<Rightarrow>
     (let df = df\<lparr>c_createTimeISO := map stamp_cell t\<rparr>;
          df = df\<lparr>c_hour := Some (dt_hour t)\<rparr>;
          df = df\<lparr>c_minute := Some (dt_minute t)\<rparr>;
          df = df\<lparr>c_second := Some (dt_second t)\<rparr>;
          df = df\<lparr>c_day := Some (map_dict days_mapping (dt_dayofweek t))\<rparr>;
          tot = total_interactions df;
          df = df\<lparr>c_total_interactions := Some tot\<rparr>;
          df = df\<lparr>c_is_popular := Some (is_popular tot)\<rparr>
      in case hstack hashtag_tfidf
                (np_array [map num name_codes, map num music_codes,
                           map num_na (c_videoMeta_duration df),
                           map num_na (dt_hour t), map num_na (dt_minute t),
                           map num_na (dt_second t), map num text_length]) of
           Inl e \<Rightarrow> Inl e
         | Inr features \<Rightarrow> Inr (df, features, is_popular tot, tfidf, le_name, le_music))))))"

subsection \<open>The session and \<^verbatim>\<open>predict_content\<close>\<close>

text \<open>
  \<^verbatim>\<open>st.session_state\<close>: a key that was never set is \<^const>\<open>None\<close>. The model section
  of \<^verbatim>\<open>main\<close> (lines 247--251) sets the four artifacts together.
\<close>

record session_state =
  model :: "RandomForestClassifier option"
  le_name :: "LabelEncoder option"
  le_music :: "LabelEncoder option"
  tfidf :: "TfidfVectorizer option"

definition section_Model ::
  "RandomForestClassifier \<Rightarrow> TfidfVectorizer \<Rightarrow> LabelEncoder \<Rightarrow> LabelEncoder \<Rightarrow>
   session_state \<Rightarrow> session_state" where
  "section_Model m v len lem st =
     st\<lparr>model := Some m, le_name := Some len, le_music := Some lem, tfidf := Some v\<rparr>"

text \<open>
  Reading \<^verbatim>\<open>st.session_state.le_name\<close> raises \<^verbatim>\<open>AttributeError\<close> when the key was
  never set.
\<close>

definition encode_with :: "LabelEncoder option \<Rightarrow> string \<Rightarrow> error + int" where
  "encode_with le s = (case le of None \<Rightarrow> Inl AttributeError | Some l \<Rightarrow> encode_or_unseen l s)"

definition predict_content_features ::
  "session_state \<Rightarrow> TfidfVectorizer \<Rightarrow> string \<Rightarrow> string \<Rightarrow> string \<Rightarrow> int \<Rightarrow> 'a time_scheme \<Rightarrow>
   error + feature list list" where
  "predict_content_features st v text author music duration waktu =
     (let text_length = int (length text);
          hour = int (hour waktu);
          minute = int (minute waktu);
          second = int (second waktu)
      in case encode_with (le_name st) author of Inl e \<Rightarrow> Inl e | Inr author_encoded \<Rightarrow>
        (case encode_with (le_music st) music of Inl e \<Rightarrow> Inl e | Inr music_encoded \<Rightarrow>
           hstack (tfidf_rows v [text])
             [[num author_encoded, num music_encoded, num duration, num hour, num minute,
               num second, num text_length]]))"

definition predict_content ::
  "session_state \<Rightarrow> RandomForestClassifier \<Rightarrow> TfidfVectorizer \<Rightarrow> string \<Rightarrow> string \<Rightarrow> string \<Rightarrow> int \<Rightarrow>
   'a time_scheme \<Rightarrow> error + int" where
  "predict_content st m v text author music duration waktu =
     (case predict_content_features st v text author music duration waktu of
        Inl e \<Rightarrow> Inl e
      | Inr features \<Rightarrow>
          (case RandomForest_predict m features of
             Inl e \<Rightarrow> Inl e
           | Inr prediction \<Rightarrow> item0 prediction))"

text \<open>
  The first tab of the prediction section of \<^verbatim>\<open>main\<close> (lines 259--274): without a model
  in the session it warns, returns and predicts nothing.
\<close>

definition section_Prediksi_tab1 ::
  "session_state \<Rightarrow> string \<Rightarrow> string \<Rightarrow> string \<Rightarrow> int \<Rightarrow> 'a time_scheme \<Rightarrow> error + int" where
  "section_Prediksi_tab1 st text author music duration waktu_jam =
     (case model st of
        None \<Rightarrow> Inl Model_belum_dilatih
      | Some m \<Rightarrow>
          (case tfidf st of
             None \<Rightarrow> Inl AttributeError
           | Some v \<Rightarrow> predict_content st m v text author music duration waktu_jam))"

subsection \<open>\<^verbatim>\<open>predict_bulk\<close>\<close>

text \<open>
  The caller's frame is an object on the heap; the function works on it in place and
  returns the reference it was given. An exception leaves the frame as the statements
  before it made it.
\<close>

type_synonym ref = nat
type_synonym heap = "ref \<Rightarrow> DataFrame"

definition fillna_str :: "string option \<Rightarrow> string" where
  "fillna_str x = (case x of None \<Rightarrow> [] | Some s \<Rightarrow> s)"

text \<open>
  The dictionary of lines 154--156, the labels without their emoji; a prediction that is
  no key becomes \<^verbatim>\<open>NaN\<close>.
\<close>

definition status_label :: "int \<Rightarrow> string option" where
  "status_label l = map_of [(1, ''Populer''), (0, ''Tidak Populer'')] l"

text \<open>Lines 129--135: the text, its length and the temporal columns. Nothing raises here.\<close>

definition predict_bulk_derive :: "(string \<Rightarrow> datetime option) \<Rightarrow> DataFrame \<Rightarrow> DataFrame" where
  "predict_bulk_derive parse df_input =
     (let df = df_input\<lparr>c_text := map (\<lambda>x. Some (fillna_str x)) (c_text df_input)\<rparr>;
          df = df\<lparr>c_text_length := Some (map (\<lambda>x. int (length x)) (present (c_text df)))\<rparr>;
          t = to_datetime_coerce parse (c_createTimeISO df);
          df = df\<lparr>c_createTimeISO := map stamp_cell t\<rparr>;
          df = df\<lparr>c_hour := Some (dt_hour t)\<rparr>;
          df = df\<lparr>c_minute := Some (dt_minute t)\<rparr>;
          df = df\<lparr>c_second := Some (dt_second t)\<rparr>
      in df)"

text \<open>
  Lines 146--151, on the frame as lines 129--144 left it: the derived columns read here
  have all been assigned by then.
\<close>

definition column :: "'a list option \<Rightarrow> 'a list" where
  "column c = (case c of None \<Rightarrow> [] | Some xs \<Rightarrow> xs)"

definition predict_bulk_features :: "TfidfVectorizer \<Rightarrow> DataFrame \<Rightarrow> error + feature list list" where
  "predict_bulk_features v df =
     hstack (tfidf_rows v (present (c_text df)))
       (np_array [map num (column (c_authorMeta_name_encoded df)),
                  map num (column (c_musicMeta_musicName_encoded df)),
                  map num_na (c_videoMeta_duration df),
                  map num_na (column (c_hour df)), map num_na (column (c_minute df)),
                  map num_na (column (c_second df)), map num (column (c_text_length df))])"

definition predict_bulk ::
  "(string \<Rightarrow> datetime option) \<Rightarrow> session_state \<Rightarrow> RandomForestClassifier \<Rightarrow> TfidfVectorizer \<Rightarrow>
   ref \<Rightarrow> heap \<Rightarrow> (error + ref) \<times> heap" where
  "predict_bulk parse st m v r h =
     (let df = predict_bulk_derive parse (h r)
      in case apply_series (\<lambda>x. encode_with (le_name st) (py_str x)) (c_authorMeta_name df) of
           Inl e \<Rightarrow> (Inl e, h(r := df))
         | Inr name_codes \<Rightarrow>
     (let df = df\<lparr>c_authorMeta_name_encoded := Some name_codes\<rparr>
      in case apply_series (\<lambda>x. encode_with (le_music st) (py_str x)) (c_musicMeta_musicName df) of
           Inl e \<Rightarrow> (Inl e, h(r := df))
         | Inr music_codes \<Rightarrow>
     (let df = df\<lparr>c_musicMeta_musicName_encoded := Some music_codes\<rparr>
      in case predict_bulk_features v df of
           Inl e \<Rightarrow> (Inl e, h(r := df))
         | Inr features \<Rightarrow>
             (case RandomForest_predict m features of
                Inl e \<Rightarrow> (Inl e, h(r := df))
              | Inr labels \<Rightarrow>
                  (Inr r, h(r := df\<lparr>c_status_popularitas := Some (map status_label labels)\<rparr>))))))"

subsection \<open>Frames from rows\<close>

text \<open>
  \<^verbatim>\<open>pd.read_csv\<close> and \<^verbatim>\<open>pd.DataFrame(list of dicts)\<close> build a frame from rows: every
  column gets one cell per row, and no derived column is there yet.
\<close>

record raw_row =
  r_text :: "string option"
  r_author :: "string option"
  r_music :: "string option"
  r_duration :: "int option"
  r_createTimeISO :: time_cell
  r_digg :: "int option"
  r_share :: "int option"
  r_comment :: "int option"
  r_play :: "int option"

definition raw_frame :: "raw_row list \<Rightarrow> DataFrame" where
  "raw_frame rows =
     \<lparr>c_text = map r_text rows, c_authorMeta_name = map r_author rows,
      c_musicMeta_musicName = map r_music rows, c_videoMeta_duration = map r_duration rows,
      c_createTimeISO = map r_createTimeISO rows,
      c_diggCount = map r_digg rows, c_shareCount = map r_share rows,
      c_commentCount = map r_comment rows, c_playCount = map r_play rows,
      c_authorMeta_name_encoded = None, c_musicMeta_musicName_encoded = None, c_text_length = None,
      c_hashtags_str = None, c_hour = None, c_minute = None, c_second = None, c_day = None,
      c_total_interactions = None, c_is_popular = None, c_status_popularitas = None\<rparr>"

subsection \<open>Sample data\<close>

text \<open>
  What the date parser returns on the three strings the examples use: two ISO timestamps
  (a Monday and a Tuesday) and a word that is no date.
\<close>

definition sample_parse :: "string \<Rightarrow> datetime option" where
  "sample_parse s =
     map_of [(''2024-01-01T10:20:30'', \<lparr>hour = 10, minute = 20, second = 30, dayofweek = 0\<rparr>),
             (''2024-01-02T08:00:05'', \<lparr>hour = 8, minute = 0, second = 5, dayofweek = 1\<rparr>)] s"

definition post1 :: raw_row where
  "post1 = \<lparr>r_text = Some ''dance #fyp'', r_author = Some ''alice'', r_music = Some ''lagu a'',
            r_duration = Some 15, r_createTimeISO = Text ''2024-01-01T10:20:30'',
            r_digg = Some 3000, r_share = Some 2000, r_comment = Some 1000, r_play = Some 4001\<rparr>"

definition post2 :: raw_row where
  "post2 = \<lparr>r_text = Some ''#dance'', r_author = Some ''bob'', r_music = Some ''lagu b'',
            r_duration = Some 30, r_createTimeISO = Text ''2024-01-02T08:00:05'',
            r_digg = Some 3000, r_share = Some 2000, r_comment = Some 1000, r_play = Some 4000\<rparr>"

text \<open>A post whose timestamp cannot be parsed.\<close>

definition post3 :: raw_row where
  "post3 = \<lparr>r_text = Some ''#fyp'', r_author = Some ''carol'', r_music = Some ''lagu a'',
            r_duration = Some 20, r_createTimeISO = Text ''kemarin'',
            r_digg = Some 10, r_share = Some 2, r_comment = Some 1, r_play = Some 40\<rparr>"

text \<open>
  The artifacts a training run on \<^term>\<open>raw_frame [post1, post2]\<close> leaves in the session,
  with some forest fitted on the nine columns of that run.
\<close>

definition sample_tfidf :: TfidfVectorizer where
  "sample_tfidf = \<lparr>vocabulary = [''dance'', ''fyp''], idf = [ln (3 / 2) + 1, ln (3 / 2) + 1]\<rparr>"

definition sample_model :: RandomForestClassifier where
  "sample_model = \<lparr>n_features_in = 9, decide = (\<lambda>row. if row ! 2 > 0 then 1 else 0)\<rparr>"

definition sample_session :: session_state where
  "sample_session =
     section_Model sample_model sample_tfidf (LabelEncoder_fit [''alice'', ''bob''])
       (LabelEncoder_fit [''lagu a'', ''lagu b''])
       \<lparr>model = None, le_name = None, le_music = None, tfidf = None\<rparr>"


section \<open>Properties\<close>

subsection \<open>Auxiliary facts\<close>

lemma index_of_less: "y \<in> set xs \<Longrightarrow> index_of xs y < length xs"
  by (induction xs) auto

lemma nth_index_of: "y \<in> set xs \<Longrightarrow> xs ! index_of xs y = y"
  by (induction xs) auto

lemma index_of_nth: "distinct xs \<Longrightarrow> i < length xs \<Longrightarrow> index_of xs (xs ! i) = i"
proof (induction xs arbitrary: i)
  case Nil
  then show ?case by simp
next
  case (Cons x xs)
  then show ?case by (cases i) auto
qed

lemma index_of_bij: "distinct xs \<Longrightarrow> bij_betw (index_of xs) (set xs) {0..<length xs}"
proof -
  assume d: "distinct xs"
  have inj: "inj_on (index_of xs) (set xs)"
    by (rule inj_on_inverseI[where g = "\<lambda>i. xs ! i"]) (simp add: nth_index_of)
  have img: "index_of xs ` set xs = {0..<length xs}"
  proof
    show "index_of xs ` set xs \<subseteq> {0..<length xs}"
      by (auto simp: index_of_less)
    show "{0..<length xs} \<subseteq> index_of xs ` set xs"
    proof
      fix i assume "i \<in> {0..<length xs}"
      then have "i < length xs" by simp
      with d have "index_of xs (xs ! i) = i" "xs ! i \<in> set xs"
        by (simp_all add: index_of_nth)
      then show "i \<in> index_of xs ` set xs" by force
    qed
  qed
  from inj img show ?thesis by (simp add: bij_betw_def)
qed

lemma index_of_mono:
  fixes xs :: "('a::linorder) list"
  assumes "sorted xs" "distinct xs" "s \<in> set xs" "t \<in> set xs"
  shows "(s < t) = (index_of xs s < index_of xs t)"
proof -
  let ?i = "index_of xs s" and ?j = "index_of xs t"
  have i: "?i < length xs" "xs ! ?i = s" and j: "?j < length xs" "xs ! ?j = t"
    using assms by (simp_all add: index_of_less nth_index_of)
  show ?thesis
  proof
    assume "s < t"
    show "?i < ?j"
    proof (rule ccontr)
      assume "\<not> ?i < ?j"
      then have "?j \<le> ?i" by simp
      with \<open>sorted xs\<close> i(1) have "xs ! ?j \<le> xs ! ?i" by (simp add: sorted_nth_mono)
      with i j \<open>s < t\<close> show False by simp
    qed
  next
    assume lt: "?i < ?j"
    with \<open>sorted xs\<close> j(1) have "xs ! ?i \<le> xs ! ?j" by (simp add: sorted_nth_mono)
    moreover from lt i(1) j(1) \<open>distinct xs\<close> have "xs ! ?i \<noteq> xs ! ?j"
      by (simp add: nth_eq_iff_index_eq)
    ultimately show "s < t" using i j by simp
  qed
qed

lemma encode_or_unseen_eq:
  "encode_or_unseen le s =
     Inr (if s \<in> set (classes le) then int (index_of (classes le) s) else - 1)"
  by (simp add: encode_or_unseen_def LabelEncoder_transform_def item0_def)

lemma apply_series_Inr: "(\<And>x. x \<in> set xs \<Longrightarrow> f x = Inr (g x)) \<Longrightarrow> apply_series f xs = Inr (map g xs)"
  by (induction xs) auto

lemma classes_fit: "classes (LabelEncoder_fit y) = sort (remdups y)"
  by (simp add: LabelEncoder_fit_def)

lemma fit_transform_codes:
  "snd (LabelEncoder_fit_transform y) = Inr (map (\<lambda>v. int (index_of (sort (remdups y)) v)) y)"
  by (simp add: LabelEncoder_fit_transform_def LabelEncoder_transform_def classes_fit Let_def list_all_iff)







lemma length_take_rows [simp]: "length (take_rows keep col) = length keep"
  by (simp add: take_rows_def)

lemma wf_dropna: "wf_frame (dropna df)"
  by (simp add: wf_frame_def dropna_def nrows_def Let_def)



lemma preprocess_data_Inr:
  assumes "preprocess_data parse df0 = Inr (df, X, ylab, v, len, lem)"
  shows "len = LabelEncoder_fit (present (c_authorMeta_name (dropna df0)))"
    and "lem = LabelEncoder_fit (present (c_musicMeta_musicName (dropna df0)))"
    and "TfidfVectorizer_fit 100 (map hashtags_str (present (c_text (dropna df0)))) = Inr v"
    and "ylab = is_popular (total_interactions (dropna df0))"
    and "c_is_popular df = Some ylab"
    and "c_diggCount df = c_diggCount (dropna df0)"
    and "c_shareCount df = c_shareCount (dropna df0)"
    and "c_commentCount df = c_commentCount (dropna df0)"
    and "c_playCount df = c_playCount (dropna df0)"
    and "c_text df = c_text (dropna df0)"
    and "\<exists>t. to_datetime parse (c_createTimeISO (dropna df0)) = Inr t"
  using assms
  by (auto simp: preprocess_data_def Let_def LabelEncoder_fit_transform_def total_interactions_def
      split: sum.splits prod.splits)


lemma sorted_distinct_fit:
  "sorted (classes (LabelEncoder_fit y))" "distinct (classes (LabelEncoder_fit y))"
  "set (classes (LabelEncoder_fit y)) = set y"
  by (simp_all add: classes_fit)


lemma length_l2_normalize [simp]: "length (l2_normalize w) = length w"
  by (simp add: l2_normalize_def Let_def)

lemma length_transform:
  "length (TfidfVectorizer_transform v d) = min (length (vocabulary v)) (length (idf v))"
  by (simp add: TfidfVectorizer_transform_def)




lemma np_array7:
  assumes "length c1 = n" "length c2 = n" "length c3 = n" "length c4 = n"
    "length c5 = n" "length c6 = n" "length c7 = n"
  shows "np_array [c1, c2, c3, c4, c5, c6, c7]
     = map (\<lambda>i. [c1 ! i, c2 ! i, c3 ! i, c4 ! i, c5 ! i, c6 ! i, c7 ! i]) [0..<n]"
proof -
  have "transpose [c1, c2, c3, c4, c5, c6, c7]
      = map (\<lambda>i. map (\<lambda>j. [c1, c2, c3, c4, c5, c6, c7] ! j ! i) [0..<length [c1, c2, c3, c4, c5, c6, c7]]) [0..<n]"
  proof (rule transpose_rectangle)
    fix i assume "i < length [c1, c2, c3, c4, c5, c6, c7]"
    then have "i \<in> {0, 1, 2, 3, 4, 5, 6}" by auto
    with assms show "length ([c1, c2, c3, c4, c5, c6, c7] ! i) = n" by auto
  qed simp
  also have "[0..<length [c1, c2, c3, c4, c5, c6, c7]] = [0, 1, 2, 3, 4, 5, 6]"
    by (simp add: upt_rec)
  finally show ?thesis by (simp add: np_array_def)
qed

lemma apply_series_Inr_D:
  "apply_series f xs = Inr ys \<Longrightarrow> length ys = length xs \<and> (\<forall>i<length xs. f (xs ! i) = Inr (ys ! i))"
proof (induction xs arbitrary: ys)
  case Nil
  then show ?case by simp
next
  case (Cons x xs)
  then show ?case
    by (auto split: sum.splits simp: nth_Cons split: nat.splits)
qed

lemma present_map_Some [simp]: "present (map Some ys) = ys"
  by (induction ys) (simp_all add: present_def)

lemma complete_map_Some: "list_all (\<lambda>x. x \<noteq> None) xs \<Longrightarrow> map Some (map the xs) = xs"
  by (induction xs) auto

lemma present_complete: "list_all (\<lambda>x. x \<noteq> None) xs \<Longrightarrow> present xs = map the xs"
  using complete_map_Some [of xs] present_map_Some [of "map the xs"] by simp

lemma dropna_complete:
  "list_all (\<lambda>x. x \<noteq> None) (c_text (dropna df))"
  "list_all (\<lambda>x. x \<noteq> None) (c_authorMeta_name (dropna df))"
  "list_all (\<lambda>x. x \<noteq> None) (c_musicMeta_musicName (dropna df))"
  "list_all (\<lambda>x. x \<noteq> None) (c_videoMeta_duration (dropna df))"
  "list_all (\<lambda>x. x \<noteq> NaT) (c_createTimeISO (dropna df))"
  by (simp_all add: dropna_def Let_def take_rows_def list_all_iff notna_row_def)


lemma hstack_Inr: "length A = length B \<Longrightarrow> hstack A B = Inr (map2 (@) A B)"
  by (simp add: hstack_def)

lemma preprocess_data_features:
  assumes "preprocess_data parse df0 = Inr (df, X, ylab, v, len, lem)"
  shows "\<exists>t. to_datetime parse (c_createTimeISO (dropna df0)) = Inr t
           \<and> c_createTimeISO df = map stamp_cell t
           \<and> hstack (tfidf_rows v (map hashtags_str (present (c_text (dropna df0)))))
                (np_array [map num (map (\<lambda>a. int (index_of (classes len) a))
                                     (present (c_authorMeta_name (dropna df0)))),
                           map num (map (\<lambda>a. int (index_of (classes lem) a))
                                     (present (c_musicMeta_musicName (dropna df0)))),
                           map num_na (c_videoMeta_duration (dropna df0)),
                           map num_na (dt_hour t), map num_na (dt_minute t),
                           map num_na (dt_second t),
                           map num (map (\<lambda>x. int (length x)) (present (c_text (dropna df0))))])
               = Inr X"
    and "c_authorMeta_name df = c_authorMeta_name (dropna df0)"
    and "c_musicMeta_musicName df = c_musicMeta_musicName (dropna df0)"
    and "c_videoMeta_duration df = c_videoMeta_duration (dropna df0)"
  using assms
  by (auto simp: preprocess_data_def Let_def LabelEncoder_fit_transform_def
      LabelEncoder_transform_def LabelEncoder_fit_def
      split: sum.splits prod.splits if_splits)

lemma stamp_cell_Stamp: "stamp_cell t = Stamp d \<Longrightarrow> t = Some d"
  by (cases t) (simp_all add: stamp_cell_def)

lemma training_row:
  assumes pre: "preprocess_data parse df0 = Inr (df, X, ylab, v, len, lem)"
    and i: "i < nrows df"
    and cells: "c_text df ! i = Some text" "c_authorMeta_name df ! i = Some author"
      "c_musicMeta_musicName df ! i = Some music" "c_videoMeta_duration df ! i = Some duration"
      "c_createTimeISO df ! i = Stamp dt"
  shows "X ! i = map Some (TfidfVectorizer_transform v (hashtags_str text))
                 @ [num (int (index_of (classes len) author)), num (int (index_of (classes lem) music)),
                    num duration, num (int (hour dt)), num (int (minute dt)), num (int (second dt)),
                    num (int (length text))]"
    and "length X = nrows df"
proof -
  let ?d = "dropna df0"
  let ?n = "nrows ?d"
  note f = preprocess_data_features [OF pre]
  note g = preprocess_data_Inr [OF pre]
  from f(1) obtain t where t: "to_datetime parse (c_createTimeISO ?d) = Inr t"
    and ct: "c_createTimeISO df = map stamp_cell t"
    and hs: "hstack (tfidf_rows v (map hashtags_str (present (c_text ?d))))
                (np_array [map num (map (\<lambda>a. int (index_of (classes len) a))
                                     (present (c_authorMeta_name ?d))),
                           map num (map (\<lambda>a. int (index_of (classes lem) a))
                                     (present (c_musicMeta_musicName ?d))),
                           map num_na (c_videoMeta_duration ?d),
                           map num_na (dt_hour t), map num_na (dt_minute t),
                           map num_na (dt_second t),
                           map num (map (\<lambda>x. int (length x)) (present (c_text ?d)))])
               = Inr X"
    by blast
  have n: "nrows df = ?n" by (simp add: nrows_def g(10))
  have wf: "wf_frame ?d" by (rule wf_dropna)
  have lt: "length t = ?n"
    using apply_series_Inr_D [OF t [unfolded to_datetime_def]] wf by (simp add: wf_frame_def)
  have pt: "present (c_text ?d) = map the (c_text ?d)"
    and pa: "present (c_authorMeta_name ?d) = map the (c_authorMeta_name ?d)"
    and pm: "present (c_musicMeta_musicName ?d) = map the (c_musicMeta_musicName ?d)"
    by (rule present_complete, rule dropna_complete)+
  have lens: "length (c_text ?d) = ?n" "length (c_authorMeta_name ?d) = ?n"
    "length (c_musicMeta_musicName ?d) = ?n" "length (c_videoMeta_duration ?d) = ?n"
    using wf by (simp_all add: wf_frame_def nrows_def)
  let ?dense = "map (\<lambda>i. [map num (map (\<lambda>a. int (index_of (classes len) a)) (map the (c_authorMeta_name ?d))) ! i,
                          map num (map (\<lambda>a. int (index_of (classes lem) a)) (map the (c_musicMeta_musicName ?d))) ! i,
                          map num_na (c_videoMeta_duration ?d) ! i,
                          map num_na (dt_hour t) ! i, map num_na (dt_minute t) ! i,
                          map num_na (dt_second t) ! i,
                          map num (map (\<lambda>x. int (length x)) (map the (c_text ?d))) ! i]) [0..<?n]"
  have dense: "np_array [map num (map (\<lambda>a. int (index_of (classes len) a)) (map the (c_authorMeta_name ?d))),
                           map num (map (\<lambda>a. int (index_of (classes lem) a)) (map the (c_musicMeta_musicName ?d))),
                           map num_na (c_videoMeta_duration ?d),
                           map num_na (dt_hour t), map num_na (dt_minute t),
                           map num_na (dt_second t),
                           map num (map (\<lambda>x. int (length x)) (map the (c_text ?d)))] = ?dense"
    by (rule np_array7) (simp_all add: lens lt dt_hour_def dt_minute_def dt_second_def)
  have lr: "length (tfidf_rows v (map hashtags_str (map the (c_text ?d)))) = length ?dense"
    by (simp add: tfidf_rows_def lens)
  from hs have X: "X = map2 (@) (tfidf_rows v (map hashtags_str (map the (c_text ?d)))) ?dense"
    unfolding pt pa pm dense by (simp only: hstack_Inr [OF lr] sum.inject)
  show "length X = nrows df"
    unfolding X n by (simp add: tfidf_rows_def lens)
  from i n have i': "i < ?n" by simp
  from cells(5) ct i' lt have ti: "t ! i = Some dt"
    by (simp add: stamp_cell_Stamp)
  from cells(1-4) have c': "c_text ?d ! i = Some text" "c_authorMeta_name ?d ! i = Some author"
    "c_musicMeta_musicName ?d ! i = Some music" "c_videoMeta_duration ?d ! i = Some duration"
    by (simp_all add: g(10) f(2,3,4))
  show "X ! i = map Some (TfidfVectorizer_transform v (hashtags_str text))
                 @ [num (int (index_of (classes len) author)), num (int (index_of (classes lem) music)),
                    num duration, num (int (hour dt)), num (int (minute dt)), num (int (second dt)),
                    num (int (length text))]"
    unfolding X using i' c' ti lt
    by (simp add: tfidf_rows_def lens dt_hour_def dt_minute_def dt_second_def num_na_def num_def)
qed

lemma inference_row:
  assumes "le_name st = Some len" "le_music st = Some lem"
  shows "predict_content_features st v text author music duration waktu
     = Inr [map Some (TfidfVectorizer_transform v text)
            @ [num (if author \<in> set (classes len) then int (index_of (classes len) author) else - 1),
               num (if music \<in> set (classes lem) then int (index_of (classes lem) music) else - 1),
               num duration, num (int (hour waktu)), num (int (minute waktu)),
               num (int (second waktu)), num (int (length text))]]"
  using assms
  by (simp add: predict_content_features_def encode_with_def encode_or_unseen_eq Let_def
      hstack_def tfidf_rows_def)

lemma apply_series_length: "apply_series f xs = Inr ys \<Longrightarrow> length ys = length xs"
  using apply_series_Inr_D by blast

lemma fit_transform_Inr:
  "LabelEncoder_fit_transform y
     = (LabelEncoder_fit y, Inr (map (\<lambda>a. int (index_of (classes (LabelEncoder_fit y)) a)) y))"
  by (simp add: LabelEncoder_fit_transform_def LabelEncoder_transform_def classes_fit Let_def list_all_iff)

lemma length_np_array7:
  assumes "length c2 = length c1" "length c3 = length c1" "length c4 = length c1"
    "length c5 = length c1" "length c6 = length c1" "length c7 = length c1"
  shows "length (np_array [c1, c2, c3, c4, c5, c6, c7]) = length c1"
  using np_array7 [of c1 "length c1" c2 c3 c4 c5 c6 c7] assms by simp

lemma preprocess_data_succeeds:
  assumes v: "TfidfVectorizer_fit 100 (map hashtags_str (present (c_text (dropna df0)))) = Inr v"
    and t: "to_datetime parse (c_createTimeISO (dropna df0)) = Inr t"
  shows "\<exists>df X ylab. preprocess_data parse df0
      = Inr (df, X, ylab, v, LabelEncoder_fit (present (c_authorMeta_name (dropna df0))),
             LabelEncoder_fit (present (c_musicMeta_musicName (dropna df0))))"
proof -
  let ?d = "dropna df0"
  have wf: "wf_frame ?d" by (rule wf_dropna)
  have lt: "length t = nrows ?d"
    using apply_series_length [OF t [unfolded to_datetime_def]] wf by (simp add: wf_frame_def)
  have p: "present (c_text ?d) = map the (c_text ?d)"
    "present (c_authorMeta_name ?d) = map the (c_authorMeta_name ?d)"
    "present (c_musicMeta_musicName ?d) = map the (c_musicMeta_musicName ?d)"
    by (rule present_complete, rule dropna_complete)+
  have lens: "length (c_text ?d) = nrows ?d" "length (c_authorMeta_name ?d) = nrows ?d"
    "length (c_musicMeta_musicName ?d) = nrows ?d" "length (c_videoMeta_duration ?d) = nrows ?d"
    using wf by (simp_all add: wf_frame_def nrows_def)
  show ?thesis
    using v t
    by (simp add: preprocess_data_def Let_def fit_transform_Inr p hstack_def length_np_array7
        tfidf_rows_def lens lt dt_hour_def dt_minute_def dt_second_def)
qed

lemma preprocess_data_raises:
  assumes v: "TfidfVectorizer_fit 100 (map hashtags_str (present (c_text (dropna df0)))) = Inr v"
    and t: "to_datetime parse (c_createTimeISO (dropna df0)) = Inl e"
  shows "preprocess_data parse df0 = Inl e"
  using v t by (simp add: preprocess_data_def Let_def fit_transform_Inr)

lemma dropna_sample [simp]: "dropna (raw_frame [post1, post2]) = raw_frame [post1, post2]"
  by (simp add: dropna_def raw_frame_def notna_row_def isna_opt_def nrows_def take_rows_def
      post1_def post2_def upt_rec Let_def)

lemma dropna_sample3 [simp]: "dropna (raw_frame [post1, post3]) = raw_frame [post1, post3]"
  by (simp add: dropna_def raw_frame_def notna_row_def isna_opt_def nrows_def take_rows_def
      post1_def post3_def upt_rec Let_def)

lemma hashtags_samples:
  "hashtags_str ''dance #fyp'' = ''#fyp''" "hashtags_str ''#dance'' = ''#dance''"
  "hashtags_str ''#fyp'' = ''#fyp''"
  by (simp_all add: hashtags_str_def is_word_char_def)

lemma analyze_samples:
  "analyze ''#fyp'' = [''fyp'']" "analyze ''#dance'' = [''dance'']"
  "analyze ''dance #fyp'' = [''dance'', ''fyp'']"
  by (simp_all add: analyze_def is_word_char_def lower_char_def)

lemma fit_sample: "TfidfVectorizer_fit 100 [''#fyp'', ''#dance''] = Inr sample_tfidf"
  by (simp add: TfidfVectorizer_fit_def analyze_samples limit_features_def
      document_frequency_def sample_tfidf_def)

lemma fit_sample3: "TfidfVectorizer_fit 100 [''#fyp'', ''#fyp''] = Inr \<lparr>vocabulary = [''fyp''], idf = [ln (3 / 3) + 1]\<rparr>"
  by (simp add: TfidfVectorizer_fit_def analyze_samples limit_features_def
      document_frequency_def)

lemma idf_pos: "0 < ln (3 / 2) + (1::real)"
  by (simp add: add_pos_pos)

lemma transform_training: "TfidfVectorizer_transform sample_tfidf ''#fyp'' = [0, 1]"
  using idf_pos
  by (simp add: TfidfVectorizer_transform_def sample_tfidf_def analyze_samples l2_normalize_def)

lemma transform_inference:
  "TfidfVectorizer_transform sample_tfidf ''dance #fyp'' = [1 / sqrt 2, 1 / sqrt 2]"
  using idf_pos
  by (simp add: TfidfVectorizer_transform_def sample_tfidf_def analyze_samples l2_normalize_def
      real_sqrt_mult)

lemma to_datetime_sample:
  "to_datetime sample_parse [Text ''2024-01-01T10:20:30'', Text ''2024-01-02T08:00:05'']
     = Inr [Some \<lparr>hour = 10, minute = 20, second = 30, dayofweek = 0\<rparr>,
            Some \<lparr>hour = 8, minute = 0, second = 5, dayofweek = 1\<rparr>]"
  by (simp add: to_datetime_def to_datetime_cell_def sample_parse_def)

lemma to_datetime_sample3:
  "to_datetime sample_parse [Text ''2024-01-01T10:20:30'', Text ''kemarin''] = Inl ValueError"
  by (simp add: to_datetime_def to_datetime_cell_def sample_parse_def)

lemma preprocess_sample:
  "\<exists>df X ylab. preprocess_data sample_parse (raw_frame [post1, post2])
       = Inr (df, X, ylab, sample_tfidf, LabelEncoder_fit [''alice'', ''bob''],
              LabelEncoder_fit [''lagu a'', ''lagu b''])
     \<and> nrows df = 2
     \<and> c_text df = [Some ''dance #fyp'', Some ''#dance'']
     \<and> c_authorMeta_name df = [Some ''alice'', Some ''bob'']
     \<and> c_musicMeta_musicName df = [Some ''lagu a'', Some ''lagu b'']
     \<and> c_videoMeta_duration df = [Some 15, Some 30]
     \<and> c_createTimeISO df = [Stamp \<lparr>hour = 10, minute = 20, second = 30, dayofweek = 0\<rparr>,
                               Stamp \<lparr>hour = 8, minute = 0, second = 5, dayofweek = 1\<rparr>]"
proof -
  let ?df0 = "raw_frame [post1, post2]"
  have v: "TfidfVectorizer_fit 100 (map hashtags_str (present (c_text (dropna ?df0)))) = Inr sample_tfidf"
    unfolding dropna_sample
    by (simp add: raw_frame_def post1_def post2_def present_def hashtags_samples fit_sample)
  have t: "to_datetime sample_parse (c_createTimeISO (dropna ?df0))
     = Inr [Some \<lparr>hour = 10, minute = 20, second = 30, dayofweek = 0\<rparr>,
            Some \<lparr>hour = 8, minute = 0, second = 5, dayofweek = 1\<rparr>]"
    unfolding dropna_sample
    by (simp add: raw_frame_def post1_def post2_def to_datetime_sample)
  from preprocess_data_succeeds [OF v t] obtain df X ylab where
    pre: "preprocess_data sample_parse ?df0
      = Inr (df, X, ylab, sample_tfidf, LabelEncoder_fit (present (c_authorMeta_name (dropna ?df0))),
             LabelEncoder_fit (present (c_musicMeta_musicName (dropna ?df0))))"
    by blast
  note f = preprocess_data_features [OF pre]
  note g = preprocess_data_Inr [OF pre]
  from f(1) t have ct: "c_createTimeISO df = [Stamp \<lparr>hour = 10, minute = 20, second = 30, dayofweek = 0\<rparr>,
                               Stamp \<lparr>hour = 8, minute = 0, second = 5, dayofweek = 1\<rparr>]"
    by (auto simp: stamp_cell_def)
  have cols: "c_text df = [Some ''dance #fyp'', Some ''#dance'']"
     "c_authorMeta_name df = [Some ''alice'', Some ''bob'']"
     "c_musicMeta_musicName df = [Some ''lagu a'', Some ''lagu b'']"
     "c_videoMeta_duration df = [Some 15, Some 30]"
    unfolding g(10) f(2,3,4) dropna_sample
    by (simp_all add: raw_frame_def post1_def post2_def)
  have n: "nrows df = 2" by (simp add: nrows_def cols)
  have les: "present (c_authorMeta_name (dropna ?df0)) = [''alice'', ''bob'']"
    "present (c_musicMeta_musicName (dropna ?df0)) = [''lagu a'', ''lagu b'']"
    unfolding dropna_sample
    by (simp_all add: raw_frame_def post1_def post2_def present_def)
  from pre ct cols n show ?thesis unfolding les by blast
qed

lemma transform_training2: "TfidfVectorizer_transform sample_tfidf ''#dance'' = [1, 0]"
  using idf_pos
  by (simp add: TfidfVectorizer_transform_def sample_tfidf_def analyze_samples l2_normalize_def)

lemma classes_samples:
  "classes (LabelEncoder_fit [''alice'', ''bob'']) = [''alice'', ''bob'']"
  "classes (LabelEncoder_fit [''lagu a'', ''lagu b'']) = [''lagu a'', ''lagu b'']"
  by (simp_all add: classes_fit)

lemma sample_session_encoders:
  "le_name sample_session = Some (LabelEncoder_fit [''alice'', ''bob''])"
  "le_music sample_session = Some (LabelEncoder_fit [''lagu a'', ''lagu b''])"
  "model sample_session = Some sample_model" "tfidf sample_session = Some sample_tfidf"
  by (simp_all add: sample_session_def section_Model_def)

lemma sample_training_rows:
  assumes pre: "preprocess_data sample_parse (raw_frame [post1, post2])
       = Inr (df, X, ylab, sample_tfidf, LabelEncoder_fit [''alice'', ''bob''],
              LabelEncoder_fit [''lagu a'', ''lagu b''])"
    and n: "nrows df = 2"
    and cols: "c_text df = [Some ''dance #fyp'', Some ''#dance'']"
      "c_authorMeta_name df = [Some ''alice'', Some ''bob'']"
      "c_musicMeta_musicName df = [Some ''lagu a'', Some ''lagu b'']"
      "c_videoMeta_duration df = [Some 15, Some 30]"
      "c_createTimeISO df = [Stamp \<lparr>hour = 10, minute = 20, second = 30, dayofweek = 0\<rparr>,
                               Stamp \<lparr>hour = 8, minute = 0, second = 5, dayofweek = 1\<rparr>]"
  shows "X = [[Some 0, Some 1, num 0, num 0, num 15, num 10, num 20, num 30, num 10],
              [Some 1, Some 0, num 1, num 1, num 30, num 8, num 0, num 5, num 6]]"
proof -
  have i0: "0 < nrows df" and i1: "1 < nrows df" by (simp_all add: n)
  have c0: "c_text df ! 0 = Some ''dance #fyp''" "c_authorMeta_name df ! 0 = Some ''alice''"
    "c_musicMeta_musicName df ! 0 = Some ''lagu a''" "c_videoMeta_duration df ! 0 = Some 15"
    "c_createTimeISO df ! 0 = Stamp \<lparr>hour = 10, minute = 20, second = 30, dayofweek = 0\<rparr>"
    by (simp_all add: cols)
  have c1: "c_text df ! 1 = Some ''#dance''" "c_authorMeta_name df ! 1 = Some ''bob''"
    "c_musicMeta_musicName df ! 1 = Some ''lagu b''" "c_videoMeta_duration df ! 1 = Some 30"
    "c_createTimeISO df ! 1 = Stamp \<lparr>hour = 8, minute = 0, second = 5, dayofweek = 1\<rparr>"
    by (simp_all add: cols)
  have r0: "X ! 0 = [Some 0, Some 1, num 0, num 0, num 15, num 10, num 20, num 30, num 10]"
    unfolding training_row(1) [OF pre i0 c0]
    by (simp add: hashtags_samples transform_training classes_samples)
  have r1: "X ! 1 = [Some 1, Some 0, num 1, num 1, num 30, num 8, num 0, num 5, num 6]"
    unfolding training_row(1) [OF pre i1 c1]
    by (simp add: hashtags_samples transform_training2 classes_samples)
  have lX: "length X = 2" using training_row(2) [OF pre i0 c0] by (simp add: n)
  have "X = [X ! 0, X ! 1]"
    using lX by (intro nth_equalityI) (auto simp: less_Suc_eq numeral_2_eq_2)
  then show ?thesis unfolding r0 r1 .
qed

lemma present_map_Some_f [simp]: "present (map (\<lambda>x. Some (f x)) xs) = map f xs"
  by (induction xs) (simp_all add: present_def)

lemma encode_series:
  "apply_series (\<lambda>x. encode_with (Some l) (py_str x)) col
     = Inr (map (\<lambda>x. if py_str x \<in> set (classes l) then int (index_of (classes l) (py_str x)) else - 1) col)"
  by (rule apply_series_Inr) (simp add: encode_with_def encode_or_unseen_eq)

lemma predict_bulk_effect:
  assumes "predict_bulk parse st m v r h = (res, h')"
  shows "\<forall>r'. r' \<noteq> r \<longrightarrow> h' r' = h r'"
    and "c_text (h' r) = map (\<lambda>x. Some (fillna_str x)) (c_text (h r))"
    and "c_createTimeISO (h' r) = map stamp_cell (to_datetime_coerce parse (c_createTimeISO (h r)))"
    and "c_text_length (h' r) = Some (map (\<lambda>x. int (length (fillna_str x))) (c_text (h r)))"
    and "c_hour (h' r) = Some (dt_hour (to_datetime_coerce parse (c_createTimeISO (h r))))"
    and "c_minute (h' r) = Some (dt_minute (to_datetime_coerce parse (c_createTimeISO (h r))))"
    and "c_second (h' r) = Some (dt_second (to_datetime_coerce parse (c_createTimeISO (h r))))"
    and "c_day (h' r) = c_day (h r)"
    and "c_authorMeta_name (h' r) = c_authorMeta_name (h r)"
    and "c_musicMeta_musicName (h' r) = c_musicMeta_musicName (h r)"
    and "c_videoMeta_duration (h' r) = c_videoMeta_duration (h r)"
    and "\<forall>r'. res = Inr r' \<longrightarrow> r' = r \<and> (\<exists>labels. c_status_popularitas (h' r) = Some (map status_label labels))"
    and "\<forall>e. res = Inl e \<longrightarrow> c_status_popularitas (h' r) = c_status_popularitas (h r)"
  using assms
  by (auto simp: predict_bulk_def predict_bulk_derive_def Let_def comp_def split: sum.splits)

lemma predict_bulk_fitted:
  assumes "le_name st = Some len" "le_music st = Some lem"
  shows "predict_bulk parse st m v r h =
     (let df = (predict_bulk_derive parse (h r))
           \<lparr>c_authorMeta_name_encoded := Some (map (\<lambda>x. if py_str x \<in> set (classes len)
                 then int (index_of (classes len) (py_str x)) else - 1) (c_authorMeta_name (h r))),
            c_musicMeta_musicName_encoded := Some (map (\<lambda>x. if py_str x \<in> set (classes lem)
                 then int (index_of (classes lem) (py_str x)) else - 1) (c_musicMeta_musicName (h r)))\<rparr>
      in case predict_bulk_features v df of
           Inl e \<Rightarrow> (Inl e, h(r := df))
         | Inr features \<Rightarrow>
             (case RandomForest_predict m features of
                Inl e \<Rightarrow> (Inl e, h(r := df))
              | Inr labels \<Rightarrow>
                  (Inr r, h(r := df\<lparr>c_status_popularitas := Some (map status_label labels)\<rparr>))))"
proof -
  have a: "c_authorMeta_name (predict_bulk_derive parse (h r)) = c_authorMeta_name (h r)"
    and b: "c_musicMeta_musicName (predict_bulk_derive parse (h r)) = c_musicMeta_musicName (h r)"
    by (simp_all add: predict_bulk_derive_def Let_def)
  show ?thesis
    unfolding predict_bulk_def assms
    by (simp add: encode_series Let_def a b split: sum.splits)
qed


lemma column_Some [simp]: "column (Some xs) = xs"
  by (simp add: column_def)

lemma predict_bulk_features_rows:
  assumes len: "length texts = n" "length authors = n" "length musics = n" "length durations = n"
    "length t = n"
    and sel: "c_text df = map (\<lambda>x. Some (fillna_str x)) texts"
      "c_text_length df = Some (map (\<lambda>x. int (length (fillna_str x))) texts)"
      "c_videoMeta_duration df = durations"
      "c_hour df = Some (dt_hour t)" "c_minute df = Some (dt_minute t)"
      "c_second df = Some (dt_second t)"
      "c_authorMeta_name_encoded df = Some (map fa authors)"
      "c_musicMeta_musicName_encoded df = Some (map fm musics)"
  shows "predict_bulk_features v df
    = Inr (map (\<lambda>i. map Some (TfidfVectorizer_transform v (fillna_str (texts ! i)))
                    @ [num (fa (authors ! i)), num (fm (musics ! i)), num_na (durations ! i),
                       num_na (map_option (\<lambda>d. int (hour d)) (t ! i)),
                       num_na (map_option (\<lambda>d. int (minute d)) (t ! i)),
                       num_na (map_option (\<lambda>d. int (second d)) (t ! i)),
                       num (int (length (fillna_str (texts ! i))))]) [0..<n])"
proof -
  have dense: "np_array [map num (map fa authors), map num (map fm musics), map num_na durations,
                  map num_na (dt_hour t), map num_na (dt_minute t), map num_na (dt_second t),
                  map num (map (\<lambda>x. int (length (fillna_str x))) texts)]
     = map (\<lambda>i. [map num (map fa authors) ! i, map num (map fm musics) ! i, map num_na durations ! i,
                  map num_na (dt_hour t) ! i, map num_na (dt_minute t) ! i, map num_na (dt_second t) ! i,
                  map num (map (\<lambda>x. int (length (fillna_str x))) texts) ! i]) [0..<n]"
    by (rule np_array7) (simp_all add: len dt_hour_def dt_minute_def dt_second_def)
  have "predict_bulk_features v df
     = Inr (map2 (@) (map (\<lambda>d. map Some (TfidfVectorizer_transform v d)) (map fillna_str texts))
        (map (\<lambda>i. [map num (map fa authors) ! i, map num (map fm musics) ! i, map num_na durations ! i,
                  map num_na (dt_hour t) ! i, map num_na (dt_minute t) ! i, map num_na (dt_second t) ! i,
                  map num (map (\<lambda>x. int (length (fillna_str x))) texts) ! i]) [0..<n]))"
    unfolding predict_bulk_features_def sel
    by (simp add: dense hstack_def tfidf_rows_def len del: map_map)
  also have "map2 (@) (map (\<lambda>d. map Some (TfidfVectorizer_transform v d)) (map fillna_str texts))
        (map (\<lambda>i. [map num (map fa authors) ! i, map num (map fm musics) ! i, map num_na durations ! i,
                  map num_na (dt_hour t) ! i, map num_na (dt_minute t) ! i, map num_na (dt_second t) ! i,
                  map num (map (\<lambda>x. int (length (fillna_str x))) texts) ! i]) [0..<n])
     = map (\<lambda>i. map Some (TfidfVectorizer_transform v (fillna_str (texts ! i)))
                    @ [num (fa (authors ! i)), num (fm (musics ! i)), num_na (durations ! i),
                       num_na (map_option (\<lambda>d. int (hour d)) (t ! i)),
                       num_na (map_option (\<lambda>d. int (minute d)) (t ! i)),
                       num_na (map_option (\<lambda>d. int (second d)) (t ! i)),
                       num (int (length (fillna_str (texts ! i))))]) [0..<n]"
    by (rule nth_equalityI) (simp_all add: len dt_hour_def dt_minute_def dt_second_def)
  finally show ?thesis .
qed

lemma predict_bulk_rows:
  assumes fitted: "le_name st = Some len" "le_music st = Some lem"
    and wf: "wf_frame (h r)"
  shows "predict_bulk parse st m v r h =
     (let df = (predict_bulk_derive parse (h r))
           \<lparr>c_authorMeta_name_encoded := Some (map (\<lambda>x. if py_str x \<in> set (classes len)
                 then int (index_of (classes len) (py_str x)) else - 1) (c_authorMeta_name (h r))),
            c_musicMeta_musicName_encoded := Some (map (\<lambda>x. if py_str x \<in> set (classes lem)
                 then int (index_of (classes lem) (py_str x)) else - 1) (c_musicMeta_musicName (h r)))\<rparr>
      in case RandomForest_predict m
            (map (\<lambda>i. map Some (TfidfVectorizer_transform v (fillna_str (c_text (h r) ! i)))
                @ [num (if py_str (c_authorMeta_name (h r) ! i) \<in> set (classes len)
                        then int (index_of (classes len) (py_str (c_authorMeta_name (h r) ! i))) else - 1),
                   num (if py_str (c_musicMeta_musicName (h r) ! i) \<in> set (classes lem)
                        then int (index_of (classes lem) (py_str (c_musicMeta_musicName (h r) ! i))) else - 1),
                   num_na (c_videoMeta_duration (h r) ! i),
                   num_na (map_option (\<lambda>d. int (hour d)) (to_datetime_coerce parse (c_createTimeISO (h r)) ! i)),
                   num_na (map_option (\<lambda>d. int (minute d)) (to_datetime_coerce parse (c_createTimeISO (h r)) ! i)),
                   num_na (map_option (\<lambda>d. int (second d)) (to_datetime_coerce parse (c_createTimeISO (h r)) ! i)),
                   num (int (length (fillna_str (c_text (h r) ! i))))]) [0..<nrows (h r)]) of
           Inl e \<Rightarrow> (Inl e, h(r := df))
         | Inr labels \<Rightarrow>
             (Inr r, h(r := df\<lparr>c_status_popularitas := Some (map status_label labels)\<rparr>)))"
proof -
  let ?fa = "\<lambda>x. if py_str x \<in> set (classes len)
                 then int (index_of (classes len) (py_str x)) else - 1"
  let ?fm = "\<lambda>x. if py_str x \<in> set (classes lem)
                 then int (index_of (classes lem) (py_str x)) else - 1"
  let ?df = "(predict_bulk_derive parse (h r))
           \<lparr>c_authorMeta_name_encoded := Some (map ?fa (c_authorMeta_name (h r))),
            c_musicMeta_musicName_encoded := Some (map ?fm (c_musicMeta_musicName (h r)))\<rparr>"
  from wf have len: "length (c_text (h r)) = nrows (h r)" "length (c_authorMeta_name (h r)) = nrows (h r)"
    "length (c_musicMeta_musicName (h r)) = nrows (h r)" "length (c_videoMeta_duration (h r)) = nrows (h r)"
    "length (to_datetime_coerce parse (c_createTimeISO (h r))) = nrows (h r)"
    by (simp_all add: wf_frame_def nrows_def to_datetime_coerce_def)
  have f: "predict_bulk_features v ?df = Inr (map (\<lambda>i. map Some (TfidfVectorizer_transform v (fillna_str (c_text (h r) ! i)))
                @ [num (?fa (c_authorMeta_name (h r) ! i)),
                   num (?fm (c_musicMeta_musicName (h r) ! i)),
                   num_na (c_videoMeta_duration (h r) ! i),
                   num_na (map_option (\<lambda>d. int (hour d)) (to_datetime_coerce parse (c_createTimeISO (h r)) ! i)),
                   num_na (map_option (\<lambda>d. int (minute d)) (to_datetime_coerce parse (c_createTimeISO (h r)) ! i)),
                   num_na (map_option (\<lambda>d. int (second d)) (to_datetime_coerce parse (c_createTimeISO (h r)) ! i)),
                   num (int (length (fillna_str (c_text (h r) ! i))))]) [0..<nrows (h r)])"
    by (rule predict_bulk_features_rows [OF len])
      (simp_all add: predict_bulk_derive_def Let_def comp_def)
  show ?thesis
    unfolding predict_bulk_fitted [OF fitted] Let_def f by simp
qed

lemma wf_raw_frame [simp]: "wf_frame (raw_frame rows)"
  by (simp add: wf_frame_def raw_frame_def nrows_def)

lemma nrows_raw_frame [simp]: "nrows (raw_frame rows) = length rows"
  by (simp add: raw_frame_def nrows_def)


lemma RandomForest_predict_NaN:
  assumes "row \<in> set X" "None \<in> set row"
  shows "RandomForest_predict m X = Inl ValueError"
  using assms by (auto simp: RandomForest_predict_def list_ex_iff)

lemma coerce_sample3:
  "to_datetime_coerce sample_parse (c_createTimeISO (raw_frame [post1, post3]))
     = [Some \<lparr>hour = 10, minute = 20, second = 30, dayofweek = 0\<rparr>, None]"
  by (simp add: to_datetime_coerce_def raw_frame_def post1_def post3_def sample_parse_def)


lemma predict_bulk_sample3:
  "fst (predict_bulk sample_parse sample_session sample_model sample_tfidf 0
          (\<lambda>_. raw_frame [post1, post3])) = Inl ValueError"
proof -
  let ?h = "\<lambda>_::nat. raw_frame [post1, post3]"
  have nan: "RandomForest_predict sample_model
      (map (\<lambda>i. map Some (TfidfVectorizer_transform sample_tfidf (fillna_str (c_text (?h 0) ! i)))
                @ [num (fa i), num (fm i),
                   num_na (c_videoMeta_duration (?h 0) ! i),
                   num_na (map_option (\<lambda>d. int (hour d)) (to_datetime_coerce sample_parse (c_createTimeISO (?h 0)) ! i)),
                   num_na (map_option (\<lambda>d. int (minute d)) (to_datetime_coerce sample_parse (c_createTimeISO (?h 0)) ! i)),
                   num_na (map_option (\<lambda>d. int (second d)) (to_datetime_coerce sample_parse (c_createTimeISO (?h 0)) ! i)),
                   num (int (length (fillna_str (c_text (?h 0) ! i))))]) [0..<nrows (?h 0)])
      = Inl ValueError" for fa fm
    unfolding coerce_sample3
    by (rule RandomForest_predict_NaN [where row = "map Some (TfidfVectorizer_transform sample_tfidf (fillna_str (c_text (?h 0) ! 1)))
                @ [num (fa 1), num (fm 1),
                   num_na (c_videoMeta_duration (?h 0) ! 1),
                   num_na None, num_na None, num_na None,
                   num (int (length (fillna_str (c_text (?h 0) ! 1))))]"])
      (simp_all add: num_na_def upt_rec)
  show ?thesis
    unfolding predict_bulk_rows [OF sample_session_encoders(1,2) wf_raw_frame] Let_def nan
    by simp
qed


lemma snd_predict_bulk_columns:
  "c_hour (snd (predict_bulk parse st m v r h) r)
     = Some (dt_hour (to_datetime_coerce parse (c_createTimeISO (h r))))"
  "c_minute (snd (predict_bulk parse st m v r h) r)
     = Some (dt_minute (to_datetime_coerce parse (c_createTimeISO (h r))))"
  "c_second (snd (predict_bulk parse st m v r h) r)
     = Some (dt_second (to_datetime_coerce parse (c_createTimeISO (h r))))"
  "c_day (snd (predict_bulk parse st m v r h) r) = c_day (h r)"
  using predict_bulk_effect [OF surjective_pairing,
      where parse = parse and st = st and m = m and v = v and r = r and h = h]
  by simp_all






subsection \<open>The claims\<close>

text \<open>
  C1. An author or music string that was not in the corpus the encoder was fitted on is
  encoded as the sentinel \<open>-1\<close> at inference, and nothing is raised; a string of the corpus
  gets the code the fit gave it. The first conjunct is the guarded call of
  \<^verbatim>\<open>predict_content\<close> on an unseen string; the second and third say that
  \<^verbatim>\<open>fit_transform\<close> succeeds in training and that the guarded call returns, for each
  row of the corpus, the code of that row; the last is the column-wise call of
  \<^verbatim>\<open>predict_bulk\<close>, which returns a code for every cell (a missing cell is looked up as
  \<^verbatim>\<open>'nan'\<close>) and never an exception.
\<close>

theorem unseen_category_safety:
  "(s \<notin> set corpus \<longrightarrow> encode_or_unseen (LabelEncoder_fit corpus) s = Inr (- 1))
   \<and> (\<forall>codes. snd (LabelEncoder_fit_transform corpus) = Inr codes \<longrightarrow>
        length codes = length corpus
        \<and> (\<forall>i < length corpus. encode_or_unseen (LabelEncoder_fit corpus) (corpus ! i) = Inr (codes ! i)))
   \<and> (\<exists>codes. snd (LabelEncoder_fit_transform corpus) = Inr codes)
   \<and> apply_series (\<lambda>x. encode_with (Some (LabelEncoder_fit corpus)) (py_str x)) col
       = Inr (map (\<lambda>x. if py_str x \<in> set corpus
                        then int (index_of (classes (LabelEncoder_fit corpus)) (py_str x))
                        else - 1) col)"
proof -
  have a: "s \<notin> set corpus \<longrightarrow> encode_or_unseen (LabelEncoder_fit corpus) s = Inr (- 1)"
    by (simp add: encode_or_unseen_eq classes_fit)
  have b: "\<forall>codes. snd (LabelEncoder_fit_transform corpus) = Inr codes \<longrightarrow>
        length codes = length corpus
        \<and> (\<forall>i < length corpus. encode_or_unseen (LabelEncoder_fit corpus) (corpus ! i) = Inr (codes ! i))"
    by (simp add: fit_transform_codes encode_or_unseen_eq classes_fit)
  have c: "\<exists>codes. snd (LabelEncoder_fit_transform corpus) = Inr codes"
    by (simp add: fit_transform_codes)
  have d: "apply_series (\<lambda>x. encode_with (Some (LabelEncoder_fit corpus)) (py_str x)) col
       = Inr (map (\<lambda>x. if py_str x \<in> set corpus
                        then int (index_of (classes (LabelEncoder_fit corpus)) (py_str x))
                        else - 1) col)"
    by (rule apply_series_Inr) (simp add: encode_with_def encode_or_unseen_eq classes_fit)
  from a b c d show ?thesis by blast
qed

theorem unseen_category_safety_witness:
  "encode_or_unseen (LabelEncoder_fit [''bob'', ''alice'', ''bob'']) ''carol'' = Inr (- 1)
   \<and> encode_or_unseen (LabelEncoder_fit [''bob'', ''alice'', ''bob'']) ''bob'' = Inr 1
   \<and> snd (LabelEncoder_fit_transform [''bob'', ''alice'', ''bob'']) = Inr [1, 0, 1]
   \<and> apply_series (\<lambda>x. encode_with (Some (LabelEncoder_fit [''bob'', ''alice'', ''bob''])) (py_str x))
        [Some ''alice'', None, Some ''zed'', Some ''bob''] = Inr [0, - 1, - 1, 1]"
proof -
  have ft: "snd (LabelEncoder_fit_transform [''bob'', ''alice'', ''bob'']) = Inr [1, 0, 1]"
    by (simp add: LabelEncoder_fit_transform_def LabelEncoder_fit_def LabelEncoder_transform_def)
  note t = unseen_category_safety [of "''carol''" "[''bob'', ''alice'', ''bob'']"
      "[Some ''alice'', None, Some ''zed'', Some ''bob'']"]
  have unseen: "''carol'' \<notin> set [''bob'', ''alice'', ''bob'']" by simp
  from t [THEN conjunct1] unseen
  have 1: "encode_or_unseen (LabelEncoder_fit [''bob'', ''alice'', ''bob'']) ''carol'' = Inr (- 1)"
    by (rule mp)
  from t [THEN conjunct2, THEN conjunct1, THEN spec, THEN mp, OF ft, THEN conjunct2, THEN spec, of 0]
  have 2: "encode_or_unseen (LabelEncoder_fit [''bob'', ''alice'', ''bob'']) ''bob'' = Inr 1"
    by simp
  have cl: "classes (LabelEncoder_fit [''bob'', ''alice'', ''bob'']) = [''alice'', ''bob'']"
    by (simp add: classes_fit)
  from t [THEN conjunct2, THEN conjunct2, THEN conjunct2]
  have 3: "apply_series (\<lambda>x. encode_with (Some (LabelEncoder_fit [''bob'', ''alice'', ''bob''])) (py_str x))
        [Some ''alice'', None, Some ''zed'', Some ''bob''] = Inr [0, - 1, - 1, 1]"
    unfolding cl by (simp add: py_str_def)
  from 1 2 ft 3 show ?thesis by simp
qed



text \<open>
  C6. Fitting a categorical encoder on a sequence of strings yields the sorted list of
  the distinct strings; the code of a string is its position, so the codes are a bijection
  between the observed strings and \<open>0..K-1\<close> that follows the lexicographic order. Fitted on
  \<^verbatim>\<open>["alice","bob"]\<close>, the encoder gives 0 for \<^verbatim>\<open>"alice"\<close>, 1 for \<^verbatim>\<open>"bob"\<close> and
  \<open>-1\<close> for \<^verbatim>\<open>"carol"\<close>.
\<close>

theorem label_encoder_bijection:
  "sorted (classes (LabelEncoder_fit y)) \<and> distinct (classes (LabelEncoder_fit y))
   \<and> set (classes (LabelEncoder_fit y)) = set y
   \<and> length (classes (LabelEncoder_fit y)) = card (set y)
   \<and> bij_betw (index_of (classes (LabelEncoder_fit y))) (set y)
        {0..<length (classes (LabelEncoder_fit y))}
   \<and> (\<forall>s\<in>set y. encode_or_unseen (LabelEncoder_fit y) s
                   = Inr (int (index_of (classes (LabelEncoder_fit y)) s)))
   \<and> (\<forall>s\<in>set y. \<forall>t\<in>set y.
         (s < t) = (index_of (classes (LabelEncoder_fit y)) s < index_of (classes (LabelEncoder_fit y)) t))
   \<and> encode_or_unseen (LabelEncoder_fit [''alice'', ''bob'']) ''alice'' = Inr 0
   \<and> encode_or_unseen (LabelEncoder_fit [''alice'', ''bob'']) ''bob'' = Inr 1
   \<and> encode_or_unseen (LabelEncoder_fit [''alice'', ''bob'']) ''carol'' = Inr (- 1)"
proof -
  let ?cl = "classes (LabelEncoder_fit y)"
  note sd = sorted_distinct_fit [of y]
  have len: "length ?cl = card (set y)"
    using sd(2,3) distinct_card by fastforce
  have bij: "bij_betw (index_of ?cl) (set y) {0..<length ?cl}"
    using index_of_bij [OF sd(2)] sd(3) by simp
  have enc: "\<forall>s\<in>set y. encode_or_unseen (LabelEncoder_fit y) s = Inr (int (index_of ?cl s))"
    by (simp add: encode_or_unseen_eq sd(3))
  have mono: "\<forall>s\<in>set y. \<forall>t\<in>set y. (s < t) = (index_of ?cl s < index_of ?cl t)"
    using index_of_mono [OF sd(1,2)] sd(3) by blast
  have ex: "encode_or_unseen (LabelEncoder_fit [''alice'', ''bob'']) ''alice'' = Inr 0"
    "encode_or_unseen (LabelEncoder_fit [''alice'', ''bob'']) ''bob'' = Inr 1"
    "encode_or_unseen (LabelEncoder_fit [''alice'', ''bob'']) ''carol'' = Inr (- 1)"
    by (simp_all add: encode_or_unseen_eq classes_fit)
  from sd len bij enc mono ex show ?thesis by blast
qed

theorem label_encoder_bijection_witness:
  "classes (LabelEncoder_fit [''bob'', ''carol'', ''alice'', ''bob'']) = [''alice'', ''bob'', ''carol'']
   \<and> sorted [''alice'', ''bob'', ''carol'']
   \<and> bij_betw (index_of [''alice'', ''bob'', ''carol'']) {''alice'', ''bob'', ''carol''} {0..<3}
   \<and> encode_or_unseen (LabelEncoder_fit [''bob'', ''carol'', ''alice'', ''bob'']) ''carol'' = Inr 2
   \<and> index_of [''alice'', ''bob'', ''carol''] ''alice'' < index_of [''alice'', ''bob'', ''carol''] ''carol''"
proof -
  let ?y = "[''bob'', ''carol'', ''alice'', ''bob'']"
  have cl: "classes (LabelEncoder_fit ?y) = [''alice'', ''bob'', ''carol'']"
    by (simp add: classes_fit)
  have st: "set ?y = {''alice'', ''bob'', ''carol''}" by auto
  note t = label_encoder_bijection [of ?y, unfolded cl]
  from t have 1: "sorted [''alice'', ''bob'', ''carol'']" by (rule conjunct1)
  from t have "bij_betw (index_of [''alice'', ''bob'', ''carol'']) (set ?y) {0..<length [''alice'', ''bob'', ''carol'']}"
    by blast
  then have 2: "bij_betw (index_of [''alice'', ''bob'', ''carol'']) {''alice'', ''bob'', ''carol''} {0..<3}"
    unfolding st by (simp add: numeral_3_eq_3)
  from t have "\<forall>s\<in>set ?y. encode_or_unseen (LabelEncoder_fit ?y) s = Inr (int (index_of [''alice'', ''bob'', ''carol''] s))"
    by blast
  then have 3: "encode_or_unseen (LabelEncoder_fit ?y) ''carol'' = Inr 2" by simp
  from t have "\<forall>s\<in>set ?y. \<forall>t\<in>set ?y.
         (s < t) = (index_of [''alice'', ''bob'', ''carol''] s < index_of [''alice'', ''bob'', ''carol''] t)"
    by blast
  then have "(''alice'' < ''carol'') = (index_of [''alice'', ''bob'', ''carol''] ''alice'' < index_of [''alice'', ''bob'', ''carol''] ''carol'')"
    by simp
  then have 4: "index_of [''alice'', ''bob'', ''carol''] ''alice'' < index_of [''alice'', ''bob'', ''carol''] ''carol''"
    by simp
  from cl 1 2 3 4 show ?thesis by blast
qed







text \<open>
  C3. Single-record inference should give a record the text vector training gives it.
  It does not: training vectorizes the hashtags extracted from the text (lines 42--45),
  \<^verbatim>\<open>predict_content\<close> vectorizes the whole text (line 118). For the first sample post,
  whose caption \<^verbatim>\<open>"dance #fyp"\<close> has the word \<^verbatim>\<open>dance\<close> outside a hashtag, the training
  row starts with \<open>0, 1\<close> and the inference row, from the artifacts of that same training
  run, with \<open>1/\<surd>2, 1/\<surd>2\<close>; the seven numeric columns agree.
\<close>

theorem inference_vectorizes_raw_text:
  "(case preprocess_data sample_parse (raw_frame [post1, post2]) of
      Inl e \<Rightarrow> [] | Inr (df, X, ylab, v, len, lem) \<Rightarrow> X ! 0)
     = [Some 0, Some 1, num 0, num 0, num 15, num 10, num 20, num 30, num 10]
   \<and> (case preprocess_data sample_parse (raw_frame [post1, post2]) of
        Inl e \<Rightarrow> None | Inr (df, X, ylab, v, len, lem) \<Rightarrow> Some (v, len, lem))
     = Some (sample_tfidf, LabelEncoder_fit [''alice'', ''bob''], LabelEncoder_fit [''lagu a'', ''lagu b''])
   \<and> predict_content_features sample_session sample_tfidf ''dance #fyp'' ''alice'' ''lagu a'' 15
        \<lparr>hour = 10, minute = 20, second = 30\<rparr>
     = Inr [[Some (1 / sqrt 2), Some (1 / sqrt 2), num 0, num 0, num 15, num 10, num 20, num 30, num 10]]
   \<and> TfidfVectorizer_transform sample_tfidf (hashtags_str ''dance #fyp'')
       \<noteq> TfidfVectorizer_transform sample_tfidf ''dance #fyp''"
proof -
  from preprocess_sample obtain df X ylab where
    pre: "preprocess_data sample_parse (raw_frame [post1, post2])
       = Inr (df, X, ylab, sample_tfidf, LabelEncoder_fit [''alice'', ''bob''],
              LabelEncoder_fit [''lagu a'', ''lagu b''])"
    and n: "nrows df = 2"
    and cols: "c_text df = [Some ''dance #fyp'', Some ''#dance'']"
      "c_authorMeta_name df = [Some ''alice'', Some ''bob'']"
      "c_musicMeta_musicName df = [Some ''lagu a'', Some ''lagu b'']"
      "c_videoMeta_duration df = [Some 15, Some 30]"
      "c_createTimeISO df = [Stamp \<lparr>hour = 10, minute = 20, second = 30, dayofweek = 0\<rparr>,
                               Stamp \<lparr>hour = 8, minute = 0, second = 5, dayofweek = 1\<rparr>]"
    by blast
  have 1: "X ! 0 = [Some 0, Some 1, num 0, num 0, num 15, num 10, num 20, num 30, num 10]"
    unfolding sample_training_rows [OF pre n cols] by simp
  have 3: "predict_content_features sample_session sample_tfidf ''dance #fyp'' ''alice'' ''lagu a'' 15
        \<lparr>hour = 10, minute = 20, second = 30\<rparr>
     = Inr [[Some (1 / sqrt 2), Some (1 / sqrt 2), num 0, num 0, num 15, num 10, num 20, num 30, num 10]]"
    by (subst inference_row [OF sample_session_encoders(1,2)])
      (simp add: classes_samples transform_inference)
  have 4: "TfidfVectorizer_transform sample_tfidf (hashtags_str ''dance #fyp'')
       \<noteq> TfidfVectorizer_transform sample_tfidf ''dance #fyp''"
    by (simp add: hashtags_samples transform_training transform_inference)
  from 1 3 4 show ?thesis by (simp add: pre)
qed

text \<open>
  C4. Bulk inference should label every row of a batch, in order, and give the rows whose
  timestamp cannot be parsed zeros for hour, minute and second. It does not fill them:
  \<^verbatim>\<open>errors='coerce'\<close> turns such a timestamp into \<^verbatim>\<open>NaT\<close>, the three temporal columns
  hold \<^verbatim>\<open>NaN\<close> for the row, nothing replaces it, and the classifier rejects the matrix.
  For the batch of the first and the third sample post the call ends in \<^verbatim>\<open>ValueError\<close>;
  the frame has the temporal columns with the missing values and no
  \<^verbatim>\<open>status_popularitas\<close> column.
\<close>

theorem unparseable_timestamp_not_zero_filled:
  "fst (predict_bulk sample_parse sample_session sample_model sample_tfidf 0
          (\<lambda>_. raw_frame [post1, post3])) = Inl ValueError
   \<and> c_hour (snd (predict_bulk sample_parse sample_session sample_model sample_tfidf 0
          (\<lambda>_. raw_frame [post1, post3])) 0) = Some [Some 10, None]
   \<and> c_minute (snd (predict_bulk sample_parse sample_session sample_model sample_tfidf 0
          (\<lambda>_. raw_frame [post1, post3])) 0) = Some [Some 20, None]
   \<and> c_second (snd (predict_bulk sample_parse sample_session sample_model sample_tfidf 0
          (\<lambda>_. raw_frame [post1, post3])) 0) = Some [Some 30, None]
   \<and> c_status_popularitas (snd (predict_bulk sample_parse sample_session sample_model sample_tfidf 0
          (\<lambda>_. raw_frame [post1, post3])) 0) = None"
proof -
  let ?p = "predict_bulk sample_parse sample_session sample_model sample_tfidf 0
          (\<lambda>_. raw_frame [post1, post3])"
  have 1: "fst ?p = Inl ValueError" by (rule predict_bulk_sample3)
  have 2: "c_hour (snd ?p 0) = Some [Some 10, None]"
    "c_minute (snd ?p 0) = Some [Some 20, None]" "c_second (snd ?p 0) = Some [Some 30, None]"
    unfolding snd_predict_bulk_columns coerce_sample3
    by (simp_all add: dt_hour_def dt_minute_def dt_second_def)
  have "c_status_popularitas (snd ?p 0) = c_status_popularitas (raw_frame [post1, post3])"
    using predict_bulk_effect(13) [OF surjective_pairing, where parse = sample_parse
        and st = sample_session and m = sample_model and v = sample_tfidf and r = 0
        and h = "\<lambda>_. raw_frame [post1, post3]"] 1
    by blast
  then have 3: "c_status_popularitas (snd ?p 0) = None" by (simp add: raw_frame_def)
  from 1 2 3 show ?thesis by (intro conjI)
qed

text \<open>
  C9, as the code has it. For a record whose timestamp cannot be parsed, bulk inference
  yields the missing-value marker for hour, minute and second of that record (and
  \<^verbatim>\<open>NaT\<close> for the timestamp itself) and parsing does not fail the call; bulk inference
  derives no day of the week, the column \<^verbatim>\<open>day\<close> is left as it was.
\<close>

theorem bulk_unparseable_timestamp_is_missing:
  assumes "i < length (c_createTimeISO (h r))"
    and "c_createTimeISO (h r) ! i = Text s" and "parse s = None"
    and "predict_bulk parse st m v r h = (res, h')"
  shows "c_createTimeISO (h' r) ! i = NaT
     \<and> (\<exists>hs ms ss. c_hour (h' r) = Some hs \<and> c_minute (h' r) = Some ms \<and> c_second (h' r) = Some ss
           \<and> length hs = length (c_createTimeISO (h r))
           \<and> length ms = length (c_createTimeISO (h r))
           \<and> length ss = length (c_createTimeISO (h r))
           \<and> hs ! i = None \<and> ms ! i = None \<and> ss ! i = None)
     \<and> c_day (h' r) = c_day (h r)"
proof -
  note e = predict_bulk_effect [OF assms(4)]
  from assms(1-3) have t: "to_datetime_coerce parse (c_createTimeISO (h r)) ! i = None"
    by (simp add: to_datetime_coerce_def)
  have l: "length (to_datetime_coerce parse (c_createTimeISO (h r))) = length (c_createTimeISO (h r))"
    by (simp add: to_datetime_coerce_def)
  from t l assms(1) have 1: "c_createTimeISO (h' r) ! i = NaT"
    by (simp add: e(3) stamp_cell_def)
  from t l assms(1) have 2: "dt_hour (to_datetime_coerce parse (c_createTimeISO (h r))) ! i = None"
    "dt_minute (to_datetime_coerce parse (c_createTimeISO (h r))) ! i = None"
    "dt_second (to_datetime_coerce parse (c_createTimeISO (h r))) ! i = None"
    by (simp_all add: dt_hour_def dt_minute_def dt_second_def)
  have 3: "length (dt_hour (to_datetime_coerce parse (c_createTimeISO (h r)))) = length (c_createTimeISO (h r))"
    "length (dt_minute (to_datetime_coerce parse (c_createTimeISO (h r)))) = length (c_createTimeISO (h r))"
    "length (dt_second (to_datetime_coerce parse (c_createTimeISO (h r)))) = length (c_createTimeISO (h r))"
    by (simp_all add: dt_hour_def dt_minute_def dt_second_def l)
  from 1 2 3 e(5,6,7,8) show ?thesis by simp
qed

theorem bulk_unparseable_timestamp_is_missing_witness:
  "c_createTimeISO (snd (predict_bulk sample_parse sample_session sample_model sample_tfidf 0
          (\<lambda>_. raw_frame [post1, post3])) 0) ! 1 = NaT
   \<and> (\<exists>hs ms ss.
         c_hour (snd (predict_bulk sample_parse sample_session sample_model sample_tfidf 0
           (\<lambda>_. raw_frame [post1, post3])) 0) = Some hs
       \<and> c_minute (snd (predict_bulk sample_parse sample_session sample_model sample_tfidf 0
           (\<lambda>_. raw_frame [post1, post3])) 0) = Some ms
       \<and> c_second (snd (predict_bulk sample_parse sample_session sample_model sample_tfidf 0
           (\<lambda>_. raw_frame [post1, post3])) 0) = Some ss
       \<and> hs ! 1 = None \<and> ms ! 1 = None \<and> ss ! 1 = None)"
proof -
  let ?h = "\<lambda>_::nat. raw_frame [post1, post3]"
  let ?p = "predict_bulk sample_parse sample_session sample_model sample_tfidf 0 ?h"
  have a: "1 < length (c_createTimeISO (?h 0))" by (simp add: raw_frame_def)
  have b: "c_createTimeISO (?h 0) ! 1 = Text ''kemarin''" by (simp add: raw_frame_def post3_def)
  have c: "sample_parse ''kemarin'' = None" by (simp add: sample_parse_def)
  from bulk_unparseable_timestamp_is_missing [where h = ?h and r = 0 and i = 1
      and parse = sample_parse and st = sample_session and m = sample_model and v = sample_tfidf
      and res = "fst ?p" and h' = "snd ?p", OF a b c surjective_pairing]
  show ?thesis by blast
qed

theorem training_raises_counterexample:
  "preprocess_data sample_parse (raw_frame [post1, post3]) = Inl ValueError
   \<and> c_day (snd (predict_bulk sample_parse sample_session sample_model sample_tfidf 0
          (\<lambda>_. raw_frame [post1, post3])) 0) = None"
proof -
  have v: "TfidfVectorizer_fit 100 (map hashtags_str (present (c_text (dropna (raw_frame [post1, post3])))))
      = Inr \<lparr>vocabulary = [''fyp''], idf = [ln (3 / 3) + 1]\<rparr>"
    unfolding dropna_sample3
    by (simp add: raw_frame_def post1_def post3_def present_def hashtags_samples fit_sample3)
  have t: "to_datetime sample_parse (c_createTimeISO (dropna (raw_frame [post1, post3]))) = Inl ValueError"
    unfolding dropna_sample3
    by (simp add: raw_frame_def post1_def post3_def to_datetime_sample3)
  have 1: "preprocess_data sample_parse (raw_frame [post1, post3]) = Inl ValueError"
    by (rule preprocess_data_raises [OF v t])
  have 2: "c_day (snd (predict_bulk sample_parse sample_session sample_model sample_tfidf 0
          (\<lambda>_. raw_frame [post1, post3])) 0) = None"
    unfolding snd_predict_bulk_columns by (simp add: raw_frame_def)
  from 1 2 show ?thesis by (intro conjI)
qed

text \<open>
  C8. Single-record inference before any training run: the prediction section finds no
  model in the session, signals that the model is not trained and predicts nothing. Once
  the model section has stored the artifacts of a training run (the forest fitted on the
  columns of that run's vectorizer), inference returns a label for every input; an author
  or a music track that was not seen in training enters the row as \<open>-1\<close> and raises
  nothing.
\<close>

theorem not_fitted_gate:
  "(model st = None \<longrightarrow>
      section_Prediksi_tab1 st text author music duration waktu = Inl Model_belum_dilatih)
   \<and> (n_features_in m = length (vocabulary v) + 7 \<and> length (idf v) = length (vocabulary v) \<longrightarrow>
        section_Prediksi_tab1 (section_Model m v len lem st) text author music duration waktu
          = Inr (decide m (TfidfVectorizer_transform v text
               @ [real_of_int (if author \<in> set (classes len) then int (index_of (classes len) author) else - 1),
                  real_of_int (if music \<in> set (classes lem) then int (index_of (classes lem) music) else - 1),
                  real_of_int duration, real (hour waktu), real (minute waktu), real (second waktu),
                  real (length text)])))"
proof (intro conjI impI)
  assume "model st = None"
  then show "section_Prediksi_tab1 st text author music duration waktu = Inl Model_belum_dilatih"
    by (simp add: section_Prediksi_tab1_def)
next
  assume w: "n_features_in m = length (vocabulary v) + 7 \<and> length (idf v) = length (vocabulary v)"
  let ?st = "section_Model m v len lem st"
  have s: "model ?st = Some m" "tfidf ?st = Some v" "le_name ?st = Some len" "le_music ?st = Some lem"
    by (simp_all add: section_Model_def)
  note f = inference_row [OF s(3,4), of v "text" author music duration waktu]
  show "section_Prediksi_tab1 ?st text author music duration waktu
          = Inr (decide m (TfidfVectorizer_transform v text
               @ [real_of_int (if author \<in> set (classes len) then int (index_of (classes len) author) else - 1),
                  real_of_int (if music \<in> set (classes lem) then int (index_of (classes lem) music) else - 1),
                  real_of_int duration, real (hour waktu), real (minute waktu), real (second waktu),
                  real (length text)]))"
    using w
    by (simp add: section_Prediksi_tab1_def predict_content_def s f RandomForest_predict_def
        item0_def length_transform num_def comp_def)
qed

theorem not_fitted_gate_witness:
  "section_Prediksi_tab1 \<lparr>model = None, le_name = None, le_music = None, tfidf = None\<rparr>
      ''#dance'' ''zed'' ''lagu c'' 15 \<lparr>hour = 12, minute = 1, second = 0\<rparr> = Inl Model_belum_dilatih
   \<and> section_Prediksi_tab1 sample_session ''#dance'' ''zed'' ''lagu c'' 15
        \<lparr>hour = 12, minute = 1, second = 0\<rparr> = Inr 0"
proof -
  note t = not_fitted_gate [of "\<lparr>model = None, le_name = None, le_music = None, tfidf = None\<rparr>"
      "''#dance''" "''zed''" "''lagu c''" 15 "\<lparr>hour = 12, minute = 1, second = 0\<rparr>"
      sample_model sample_tfidf "LabelEncoder_fit [''alice'', ''bob'']"
      "LabelEncoder_fit [''lagu a'', ''lagu b'']", folded sample_session_def]
  have a: "model \<lparr>model = None, le_name = None, le_music = None, tfidf = None\<rparr> = None" by simp
  have w: "n_features_in sample_model = length (vocabulary sample_tfidf) + 7
      \<and> length (idf sample_tfidf) = length (vocabulary sample_tfidf)"
    by (simp add: sample_model_def sample_tfidf_def)
  from t a have 1: "section_Prediksi_tab1 \<lparr>model = None, le_name = None, le_music = None, tfidf = None\<rparr>
      ''#dance'' ''zed'' ''lagu c'' 15 \<lparr>hour = 12, minute = 1, second = 0\<rparr> = Inl Model_belum_dilatih"
    by blast
  from t [THEN conjunct2, THEN mp, OF w]
  have 2: "section_Prediksi_tab1 sample_session ''#dance'' ''zed'' ''lagu c'' 15
        \<lparr>hour = 12, minute = 1, second = 0\<rparr> = Inr 0"
    by (simp add: classes_samples transform_training2 sample_model_def)
  from 1 2 show ?thesis by (intro conjI)
qed



end
